theory Spec2Isabelle
  imports Main "HOL-Library.Word" "HOL-Library.Sublist"
begin

section \<open>Values shared by the scan modules\<close>

text \<open>
  Go's \<^verbatim>\<open>string\<close> is a sequence of bytes and is rendered as \<^typ>\<open>string\<close>
  (HOL characters are 8-bit); \<^verbatim>\<open>[]byte\<close> is a list of 8-bit words. The two
  conversions \<^verbatim>\<open>[]byte(s)\<close> and \<^verbatim>\<open>string(b)\<close> copy the bytes.
\<close>

type_synonym byte = "8 word"

definition bytes_of_string :: "string \<Rightarrow> byte list" where
  "bytes_of_string s = map (\<lambda>c. of_nat (of_char c)) s"

definition string_of_bytes :: "byte list \<Rightarrow> string" where
  "string_of_bytes b = map (\<lambda>w. char_of (unat w)) b"

text \<open>
  Go errors are values. \<^verbatim>\<open>io.EOF\<close>, \<^verbatim>\<open>NoMatchError\<close> (scanner.go, line 130),
  \<^verbatim>\<open>zgrab2.ErrMismatchedFlags\<close> and base64's \<^verbatim>\<open>CorruptInputError\<close> are the
  errors the two modules name or create; the remaining constructors are the kinds of
  connection failure that the specification lists (timeout, refused, generic I/O, anything
  else). The input offset that Go stores in a \<^verbatim>\<open>CorruptInputError\<close> is left out:
  the modules only test that error against \<^verbatim>\<open>nil\<close>.
\<close>

datatype error =
    EOF
  | NoMatchError
  | ErrMismatchedFlags
  | CorruptInputError
  | ErrTimeout
  | ErrConnectionRefused
  | ErrIO
  | ErrOther string

datatype ScanStatus =
    SCAN_SUCCESS
  | SCAN_SUCCESS_NOTCONTAIN
  | SCAN_PROTOCOL_ERROR
  | SCAN_CONNECTION_TIMEOUT
  | SCAN_CONNECTION_REFUSED
  | SCAN_IO_ERROR
  | SCAN_UNKNOWN_ERROR

text \<open>
  Modelled from the spec: \<^verbatim>\<open>zgrab2.TryGetScanStatus\<close> lives in the root package of
  the repository, which is not among the source files. The specification describes it as
  the generic mapping from the kind of an error to a status: "statuses derived generically
  from connection failures (timeout, connection-refused, io-error, unknown-error)". It is
  only ever called on a non-nil error by the two modules.
\<close>

fun TryGetScanStatus :: "error \<Rightarrow> ScanStatus" where
  "TryGetScanStatus ErrTimeout = SCAN_CONNECTION_TIMEOUT"
| "TryGetScanStatus ErrConnectionRefused = SCAN_CONNECTION_REFUSED"
| "TryGetScanStatus ErrIO = SCAN_IO_ERROR"
| "TryGetScanStatus EOF = SCAN_IO_ERROR"
| "TryGetScanStatus _ = SCAN_UNKNOWN_ERROR"

text \<open>
  A call of \<^verbatim>\<open>Scan\<close> or \<^verbatim>\<open>Init\<close> either returns or panics (a nil dereference, an
  explicit \<^verbatim>\<open>panic\<close>, a failing \<^verbatim>\<open>MustCompile\<close>). \<open>Return\<close> carries the three
  results of \<^verbatim>\<open>Scan\<close>: the status, the result (an \<^verbatim>\<open>interface{}\<close>), the error.
\<close>

datatype 'r scan_outcome = Panic | Return ScanStatus 'r "error option"

datatype 's init_outcome = InitPanic | InitReturn "error option" 's


section \<open>Standard library functions used by the modules\<close>

subsection \<open>\<^verbatim>\<open>bytes.Contains\<close>\<close>

fun bytes_Contains :: "byte list \<Rightarrow> byte list \<Rightarrow> bool" where
  "bytes_Contains [] subslice = (subslice = [])"
| "bytes_Contains (x # xs) subslice = (prefix subslice (x # xs) \<or> bytes_Contains xs subslice)"

subsection \<open>\<^verbatim>\<open>encoding/base64\<close>, standard encoding with padding\<close>

definition b64_alphabet :: string where
  "b64_alphabet = ''ABCDEFGHIJKLMNOPQRSTUVWXYZabcdefghijklmnopqrstuvwxyz0123456789+/''"

definition b64_index :: "char \<Rightarrow> nat option" where
  "b64_index c =
     (let n = (of_char c :: nat) in
      if 65 \<le> n \<and> n \<le> 90 then Some (n - 65)
      else if 97 \<le> n \<and> n \<le> 122 then Some (n - 71)
      else if 48 \<le> n \<and> n \<le> 57 then Some (n + 4)
      else if n = 43 then Some 62
      else if n = 47 then Some 63
      else None)"

definition is_newline :: "char \<Rightarrow> bool" where
  "is_newline c = (c = CHR 0x0A \<or> c = CHR 0x0D)"

text \<open>
  The bytes of one quantum of 2, 3 or 4 sextets: the sextets are packed into 24 bits and
  the first 1, 2 or 3 bytes are kept. The decoder is not strict, so the unused low bits
  of a padded quantum are not checked.
\<close>

fun quantum_bytes :: "nat list \<Rightarrow> byte list" where
  "quantum_bytes [a, b] = [of_nat ((a * 262144 + b * 4096) div 65536)]"
| "quantum_bytes [a, b, c] =
     (let v = a * 262144 + b * 4096 + c * 64
      in [of_nat (v div 65536), of_nat (v div 256)])"
| "quantum_bytes [a, b, c, d] =
     (let v = a * 262144 + b * 4096 + c * 64 + d
      in [of_nat (v div 65536), of_nat (v div 256), of_nat v])"
| "quantum_bytes _ = []"

definition b64_finish :: "nat list \<Rightarrow> string \<Rightarrow> byte list \<Rightarrow> byte list \<times> error option" where
  "b64_finish dbuf rest out =
     (if dropWhile is_newline rest \<noteq> [] then (out @ quantum_bytes dbuf, Some CorruptInputError)
      else (out @ quantum_bytes dbuf, None))"

text \<open>
  \<^verbatim>\<open>DecodeString\<close> reads the input in quanta of four characters of the alphabet,
  skipping CR and LF anywhere. \<open>dbuf\<close> holds the sextets of the quantum being read.
  Padding is mandatory: the input may end only between quanta, and a quantum closed by
  \<^verbatim>\<open>=\<close> must be the last one. On an error the bytes decoded so far are returned with it.
\<close>

fun b64_decode :: "nat list \<Rightarrow> string \<Rightarrow> byte list \<Rightarrow> byte list \<times> error option" where
  "b64_decode dbuf [] out = (if dbuf = [] then (out, None) else (out, Some CorruptInputError))"
| "b64_decode dbuf (c # cs) out =
     (case b64_index c of
        Some v \<Rightarrow>
          (if length dbuf = 3 then b64_decode [] cs (out @ quantum_bytes (dbuf @ [v]))
           else b64_decode (dbuf @ [v]) cs out)
      | None \<Rightarrow>
          (if is_newline c then b64_decode dbuf cs out
           else if c \<noteq> CHR ''='' then (out, Some CorruptInputError)
           else if length dbuf = 2 then
             (case dropWhile is_newline cs of
                [] \<Rightarrow> (out, Some CorruptInputError)
              | c2 # cs2 \<Rightarrow>
                  (if c2 \<noteq> CHR ''='' then (out, Some CorruptInputError)
                   else b64_finish dbuf cs2 out))
           else if length dbuf = 3 then b64_finish dbuf cs out
           else (out, Some CorruptInputError)))"

definition base64_DecodeString :: "string \<Rightarrow> byte list \<times> error option" where
  "base64_DecodeString s = b64_decode [] s []"

fun base64_EncodeToString :: "byte list \<Rightarrow> string" where
  "base64_EncodeToString [] = []"
| "base64_EncodeToString [a] =
     (let v = unat a * 65536
      in [b64_alphabet ! (v div 262144), b64_alphabet ! (v div 4096 mod 64), CHR ''='', CHR ''=''])"
| "base64_EncodeToString [a, b] =
     (let v = unat a * 65536 + unat b * 256
      in [b64_alphabet ! (v div 262144), b64_alphabet ! (v div 4096 mod 64),
          b64_alphabet ! (v div 64 mod 64), CHR ''=''])"
| "base64_EncodeToString (a # b # c # rest) =
     (let v = unat a * 65536 + unat b * 256 + unat c
      in [b64_alphabet ! (v div 262144), b64_alphabet ! (v div 4096 mod 64),
          b64_alphabet ! (v div 64 mod 64), b64_alphabet ! (v mod 64)]
         @ base64_EncodeToString rest)"

subsection \<open>\<^verbatim>\<open>encoding/hex\<close>, \<^verbatim>\<open>strconv.FormatUint\<close>, \<^verbatim>\<open>big.Int.Uint64\<close>\<close>

definition hextable :: string where
  "hextable = ''0123456789abcdef''"

definition hex_EncodeToString :: "byte list \<Rightarrow> string" where
  "hex_EncodeToString src = concat (map (\<lambda>v. [hextable ! (unat v div 16), hextable ! (unat v mod 16)]) src)"

definition digits :: string where
  "digits = ''0123456789''"

function decimal :: "nat \<Rightarrow> string" where
  "decimal n = (if n < 10 then [digits ! n] else decimal (n div 10) @ [digits ! (n mod 10)])"
  by pat_completeness auto
termination
  by (relation "measure id") auto

text \<open>\<^verbatim>\<open>strconv.FormatUint(v, 10)\<close> for a \<^verbatim>\<open>uint64\<close> value.\<close>

definition strconv_FormatUint10 :: "64 word \<Rightarrow> string" where
  "strconv_FormatUint10 v = decimal (unat v)"

text \<open>
  \<^verbatim>\<open>(*big.Int).Uint64\<close> returns the low 64 bits of the magnitude; for a value that does
  not fit in 64 bits the high bits are lost. Serial numbers are unsigned, so the
  \<^verbatim>\<open>big.Int\<close> is a natural number here.
\<close>

definition bigInt_Uint64 :: "nat \<Rightarrow> 64 word" where
  "bigInt_Uint64 x = of_nat x"

subsection \<open>\<^verbatim>\<open>regexp\<close> and \<^verbatim>\<open>strconv.Unquote\<close>\<close>

text \<open>
  A compiled regular expression is used through \<^verbatim>\<open>Match\<close> alone, so it is the set
  of byte sequences it matches. Go's regular-expression syntax and its quoted-string
  syntax are parameters of the model (\<open>None\<close> is a pattern or literal that does not
  parse), with one exception that the standard library fixes and the configuration
  surface relies on: the empty pattern compiles, and it matches every input (\<^verbatim>\<open>Match\<close>
  searches for a match anywhere, and the empty match is found at offset 0).
\<close>

type_synonym Regexp = "byte list \<Rightarrow> bool"

record stdlib =
  regexp_Compile :: "string \<Rightarrow> Regexp option"
  strconv_Unquote :: "string \<Rightarrow> string option"

definition regexp_MustCompile :: "stdlib \<Rightarrow> string \<Rightarrow> Regexp option" where
  "regexp_MustCompile lib str = (if str = [] then Some (\<lambda>b. True) else regexp_Compile lib str)"


section \<open>The TLS log and the connections\<close>

text \<open>
  Modelled from the spec: the types of the TLS log are declared outside the source files.
  The specification gives their shape: a handshake log with an optional \<^verbatim>\<open>ServerHello\<close>
  and the server certificates (the leaf and the ordered chain); each certificate carries
  parsed fields, among them three fingerprint digests and a serial number, "a large
  unsigned integer". The field names are the ones the TLS scanner reads.
\<close>

record ServerHello =
  hello_version :: "16 word"
  hello_cipher_suite :: "16 word"

record ParsedCertificate =
  FingerprintMD5 :: "byte list"
  FingerprintSHA1 :: "byte list"
  FingerprintSHA256 :: "byte list"
  SerialNumber :: nat

record SimpleCertificate =
  Parsed :: ParsedCertificate

record Certificates =
  Certificate :: SimpleCertificate
  Chain :: "SimpleCertificate list"

record ServerHandshake =
  ServerHello :: "ServerHello option"
  ServerCertificates :: Certificates

record TLSLog =
  HandshakeLog :: ServerHandshake

text \<open>
  The remote peer is an oracle. A \<^verbatim>\<open>net.Conn\<close> answers the write and the read of the
  \<open>k\<close>-th attempt (\<^verbatim>\<open>zgrab2.ReadAvailable\<close> returns the bytes and an error); a TLS
  connection has a log (a pointer that may be nil), the outcome of its handshake, and its
  own reads and writes. \<open>tls_GetLog\<close> is the log as it stands when \<^verbatim>\<open>Scan\<close> returns:
  the banner scanner keeps the pointer it obtained before the handshake, and the handshake
  fills the log behind that pointer.
\<close>

record net_conn =
  conn_Write :: "nat \<Rightarrow> byte list \<Rightarrow> error option"
  conn_Read :: "nat \<Rightarrow> byte list \<times> error option"

record tls_conn =
  tls_GetLog :: "TLSLog option"
  tls_Handshake :: "error option"
  tls_net :: net_conn

text \<open>
  \<^verbatim>\<open>ScanTarget.Open\<close> and \<^verbatim>\<open>ScanTarget.OpenTLS\<close> return a connection and an error,
  either of which may be nil; \<open>target_Open t k\<close> is what the \<open>k\<close>-th call returns.
\<close>

record ScanTarget =
  target_Open :: "nat \<Rightarrow> net_conn option \<times> error option"
  target_OpenTLS :: "tls_conn option \<times> error option"

datatype event = EvOpen | EvGetTLSConnection | EvHandshake | EvWrite "byte list" | EvRead | EvClose


section \<open>The banner module (modules/banner/scanner.go)\<close>

text \<open>
  The flags of the banner module. The embedded \<^verbatim>\<open>zgrab2.TLSFlags\<close> is used through
  its method \<^verbatim>\<open>GetTLSConnection\<close> only, which returns an error or a TLS connection.
  \<^verbatim>\<open>MaxTries\<close> is a Go \<^verbatim>\<open>int\<close>; the loop counters stay below it, so they never wrap
  around and mathematical integers render them exactly.
\<close>

record Flags =
  Probe :: string
  Pattern :: string
  MaxTries :: int
  UseTLS :: bool
  OnlyBASE64 :: bool
  ProbeBASE64 :: string
  SingleContains :: string
  SingleContainsString :: string
  GetTLSConnection :: "net_conn \<Rightarrow> error + tls_conn"

record Scanner =
  config :: "Flags option"
  regex :: "Regexp option"
  probe :: "byte list"

record Results =
  Banner :: string
  Length :: int
  BannerBase64 :: string
  TLSLog :: "TLSLog option"

text \<open>The flags of the TLS module (modules/tls.go) and its scanner.\<close>

record TLSFlags =
  FilterFingerprintMD5 :: string
  FilterFingerprintSHA1 :: string
  FilterFingerprintSHA256 :: string
  FilterFingerprintSerial :: string

record TLSScanner =
  tls_config :: "TLSFlags option"

text \<open>
  A \<^verbatim>\<open>zgrab2.ScanFlags\<close> interface value: a pointer to the flags of one of the two
  modules, or the nil interface.
\<close>

datatype ScanFlags = BannerFlags Flags | ModuleTLSFlags TLSFlags | NilFlags

definition NewScanner :: Scanner where
  "NewScanner = \<lparr>config = None, regex = None, probe = []\<rparr>"

text \<open>
  \<^verbatim>\<open>Init\<close>, lines 108 to 128. The type assertion \<^verbatim>\<open>f, _ := flags.(*Flags)\<close> discards
  its second result, so for any other dynamic type \<open>f\<close> is nil and reading
  \<^verbatim>\<open>scanner.config.Pattern\<close> dereferences it.
\<close>

definition Init :: "stdlib \<Rightarrow> Scanner \<Rightarrow> ScanFlags \<Rightarrow> Scanner init_outcome" where
  "Init lib scanner flags =
     (let f = (case flags of BannerFlags fl \<Rightarrow> Some fl | _ \<Rightarrow> None);
          scanner = scanner\<lparr>config := f\<rparr>
      in case config scanner of
           None \<Rightarrow> InitPanic
         | Some cfg \<Rightarrow>
             (case regexp_MustCompile lib (Pattern cfg) of
                None \<Rightarrow> InitPanic
              | Some re \<Rightarrow>
                  (let scanner = scanner\<lparr>regex := Some re\<rparr>
                   in if length (Probe cfg) > 0 then
                        (case strconv_Unquote lib ([CHR 0x22] @ Probe cfg @ [CHR 0x22]) of
                           None \<Rightarrow> InitPanic
                         | Some p \<Rightarrow> InitReturn None (scanner\<lparr>probe := bytes_of_string p\<rparr>))
                      else if length (ProbeBASE64 cfg) > 0 then
                        (case base64_DecodeString (ProbeBASE64 cfg) of
                           (p, Some err) \<Rightarrow> InitPanic
                         | (p, None) \<Rightarrow> InitReturn None (scanner\<lparr>probe := p\<rparr>))
                      else InitReturn None scanner)))"

text \<open>
  The connection loop of \<^verbatim>\<open>Scan\<close>, lines 143 to 150. \<open>try\<close> counts the calls of
  \<^verbatim>\<open>Open\<close>; the trace records each call.
\<close>

function open_loop ::
  "Flags \<Rightarrow> ScanTarget \<Rightarrow> int \<Rightarrow> net_conn option \<Rightarrow> error option \<Rightarrow> event list
     \<Rightarrow> net_conn option \<times> error option \<times> event list" where
  "open_loop cfg target try c err tr =
     (if try < MaxTries cfg then
        (if snd (target_Open target (nat (try + 1))) \<noteq> None
         then open_loop cfg target (try + 1) (fst (target_Open target (nat (try + 1))))
                (snd (target_Open target (nat (try + 1)))) (tr @ [EvOpen])
         else (fst (target_Open target (nat (try + 1))),
               snd (target_Open target (nat (try + 1))), tr @ [EvOpen]))
      else (c, err, tr))"
  by pat_completeness auto
termination
  by (relation "measure (\<lambda>(cfg, target, try, c, err, tr). nat (MaxTries cfg - try))") auto

declare open_loop.simps [simp del]

text \<open>
  The probe loop, lines 172 to 185: write the probe if there is one, read what is
  available, and try again after a write error or a read error other than \<^verbatim>\<open>io.EOF\<close>.
  Without a probe \<open>err\<close> keeps its value.
\<close>

function probe_loop ::
  "Flags \<Rightarrow> byte list \<Rightarrow> net_conn \<Rightarrow> int \<Rightarrow> error option \<Rightarrow> byte list \<Rightarrow> error option
     \<Rightarrow> event list \<Rightarrow> error option \<times> byte list \<times> error option \<times> event list" where
  "probe_loop cfg prb conn try err ret readerr tr =
     (if try < MaxTries cfg then
        (let err' = (if length prb > 0 then conn_Write conn (nat (try + 1)) prb else err);
             tr' = (if length prb > 0 then tr @ [EvWrite prb] else tr) @ [EvRead];
             ret' = fst (conn_Read conn (nat (try + 1)));
             readerr' = snd (conn_Read conn (nat (try + 1)))
         in if err' \<noteq> None then probe_loop cfg prb conn (try + 1) err' ret' readerr' tr'
            else if readerr' \<noteq> Some EOF \<and> readerr' \<noteq> None
              then probe_loop cfg prb conn (try + 1) err' ret' readerr' tr'
            else (err', ret', readerr', tr'))
      else (err, ret, readerr, tr))"
  by pat_completeness auto
termination
  by (relation "measure (\<lambda>(cfg, prb, conn, try, err, ret, readerr, tr). nat (MaxTries cfg - try))") auto

declare probe_loop.simps [simp del]

text \<open>
  Lines 137 to 167: open the connection, register the deferred \<^verbatim>\<open>Close\<close>, and wrap
  the connection in TLS when asked to. The result is either what \<^verbatim>\<open>Scan\<close> returns at
  once (\<open>Inl\<close>) or the connection to talk to with the result built so far (\<open>Inr\<close>).
  \<^verbatim>\<open>defer c.Close()\<close> evaluates the method value of the interface \<open>c\<close> when the
  statement runs, which panics for a nil interface. Every return after the statement runs
  the deferred call.
\<close>

definition new_Results :: Results where
  "new_Results = \<lparr>Banner = [], Length = 0, BannerBase64 = [], TLSLog = None\<rparr>"

definition Scan_connect ::
  "Flags \<Rightarrow> ScanTarget
     \<Rightarrow> (Results option scan_outcome \<times> event list) + (net_conn \<times> Results \<times> event list)" where
  "Scan_connect cfg target =
     (case open_loop cfg target 0 None None [] of
        (c, err, tr) \<Rightarrow>
          (case err of
             Some e \<Rightarrow> Inl (Return (TryGetScanStatus e) None (Some e), tr)
           | None \<Rightarrow>
               (case c of
                  None \<Rightarrow> Inl (Panic, tr)
                | Some c0 \<Rightarrow>
                    (let result = new_Results
                     in if UseTLS cfg then
                          (case GetTLSConnection cfg c0 of
                             Inl e \<Rightarrow>
                               Inl (Return (TryGetScanStatus e) None (Some e),
                                    tr @ [EvGetTLSConnection, EvClose])
                           | Inr tlsConn \<Rightarrow>
                               (let result = result\<lparr>TLSLog := tls_GetLog tlsConn\<rparr>
                                in case tls_Handshake tlsConn of
                                     Some e \<Rightarrow>
                                       Inl (Return (TryGetScanStatus e) (Some result) (Some e),
                                            tr @ [EvGetTLSConnection, EvHandshake, EvClose])
                                   | None \<Rightarrow>
                                       Inr (tls_net tlsConn, result,
                                            tr @ [EvGetTLSConnection, EvHandshake])))
                        else Inr (c0, result, tr)))))"

text \<open>
  Lines 168 to 191: the probe loop and the two checks after it. \<open>Inl\<close> is an early
  return, \<open>Inr\<close> the bytes read.
\<close>

definition Scan_exchange ::
  "Flags \<Rightarrow> byte list \<Rightarrow> net_conn \<Rightarrow> event list
     \<Rightarrow> (Results option scan_outcome \<times> event list) + (byte list \<times> event list)" where
  "Scan_exchange cfg prb conn tr =
     (case probe_loop cfg prb conn 0 None [] None tr of
        (err, ret, readerr, tr') \<Rightarrow>
          (case err of
             Some e \<Rightarrow> Inl (Return (TryGetScanStatus e) None (Some e), tr')
           | None \<Rightarrow>
               (case readerr of
                  None \<Rightarrow> Inr (ret, tr')
                | Some e \<Rightarrow>
                    (if e \<noteq> EOF then Inl (Return (TryGetScanStatus e) None (Some e), tr')
                     else Inr (ret, tr')))))"

text \<open>
  Lines 192 to 220: fill in the result (lines 192 to 199) and decide. A nil \<open>regex\<close>
  panics when \<^verbatim>\<open>Match\<close> is called on it.
\<close>

definition fill_result :: "Flags \<Rightarrow> Results \<Rightarrow> byte list \<Rightarrow> Results" where
  "fill_result cfg result ret =
     (let banner_base64 = base64_EncodeToString ret;
          banner_str = (if \<not> OnlyBASE64 cfg then string_of_bytes ret else [])
      in result\<lparr>Banner := banner_str, Length := int (length ret), BannerBase64 := banner_base64\<rparr>)"

text \<open>
  Lines 206 to 211: the bytes to look for and the error of decoding them. The literal
  filter is the starting value; a non-empty base64 filter replaces it.
\<close>

definition filter_bytes :: "Flags \<Rightarrow> byte list \<times> error option" where
  "filter_bytes cfg =
     (if length (SingleContains cfg) > 0 then base64_DecodeString (SingleContains cfg)
      else (bytes_of_string (SingleContainsString cfg), None))"

definition Scan_classify ::
  "Flags \<Rightarrow> Regexp option \<Rightarrow> Results \<Rightarrow> byte list \<Rightarrow> Results option scan_outcome" where
  "Scan_classify cfg re result0 ret =
     (let result = fill_result cfg result0 ret
      in if length (SingleContains cfg) = 0 \<and> length (SingleContainsString cfg) = 0 then
           (case re of
              None \<Rightarrow> Panic
            | Some r \<Rightarrow>
                (if r ret then Return SCAN_SUCCESS (Some result) None
                 else Return SCAN_PROTOCOL_ERROR (Some result) (Some NoMatchError)))
         else
           (case filter_bytes cfg of
              (check_bytes, err_check_bytes) \<Rightarrow>
                (if err_check_bytes = None \<and> length check_bytes > 0 then
                   (if bytes_Contains ret check_bytes then Return SCAN_SUCCESS (Some result) None
                    else Return SCAN_SUCCESS_NOTCONTAIN None None)
                 else Return SCAN_PROTOCOL_ERROR (Some result) (Some NoMatchError))))"

text \<open>
  \<^verbatim>\<open>Scan\<close>, lines 136 to 222. Reading \<^verbatim>\<open>scanner.config.MaxTries\<close> on a scanner that was
  never initialised dereferences a nil pointer. The deferred \<^verbatim>\<open>Close\<close> ends the trace
  of every return after line 154.
\<close>

definition Scan :: "Scanner \<Rightarrow> ScanTarget \<Rightarrow> Results option scan_outcome \<times> event list" where
  "Scan scanner target =
     (case config scanner of
        None \<Rightarrow> (Panic, [])
      | Some cfg \<Rightarrow>
          (case Scan_connect cfg target of
             Inl early \<Rightarrow> early
           | Inr (conn, result, tr) \<Rightarrow>
               (case Scan_exchange cfg (probe scanner) conn tr of
                  Inl (out, tr') \<Rightarrow> (out, tr' @ [EvClose])
                | Inr (ret, tr') \<Rightarrow>
                    (Scan_classify cfg (regex scanner) result ret, tr' @ [EvClose]))))"


section \<open>The TLS module (modules/tls.go)\<close>

definition NewTLSScanner :: TLSScanner where
  "NewTLSScanner = \<lparr>tls_config = None\<rparr>"

text \<open>\<^verbatim>\<open>TLSScanner.Init\<close>, lines 55 to 62.\<close>

definition TLSScanner_Init :: "TLSScanner \<Rightarrow> ScanFlags \<Rightarrow> TLSScanner init_outcome" where
  "TLSScanner_Init s flags =
     (case flags of
        ModuleTLSFlags f \<Rightarrow> InitReturn None (s\<lparr>tls_config := Some f\<rparr>)
      | _ \<Rightarrow> InitReturn (Some ErrMismatchedFlags) s)"

text \<open>The four keys a certificate is filtered by, as the four cases compute them.\<close>

definition cert_md5 :: "SimpleCertificate \<Rightarrow> string" where
  "cert_md5 v = hex_EncodeToString (FingerprintMD5 (Parsed v))"

definition cert_sha1 :: "SimpleCertificate \<Rightarrow> string" where
  "cert_sha1 v = hex_EncodeToString (FingerprintSHA1 (Parsed v))"

definition cert_sha256 :: "SimpleCertificate \<Rightarrow> string" where
  "cert_sha256 v = hex_EncodeToString (FingerprintSHA256 (Parsed v))"

definition cert_serial :: "SimpleCertificate \<Rightarrow> string" where
  "cert_serial v = strconv_FormatUint10 (bigInt_Uint64 (SerialNumber (Parsed v)))"

text \<open>
  The loop over the chain: \<open>True\<close> when the loop returns from \<^verbatim>\<open>Scan\<close> at a matching
  certificate, \<open>False\<close> when it runs to the end of the chain.
\<close>

fun chain_loop :: "(SimpleCertificate \<Rightarrow> string) \<Rightarrow> string \<Rightarrow> SimpleCertificate list \<Rightarrow> bool" where
  "chain_loop key flt [] = False"
| "chain_loop key flt (v # rest) = (if key v = flt then True else chain_loop key flt rest)"

text \<open>
  One case of the switch, lines 100 to 168; the four cases differ in the key and the
  filter only. A nil chain and an empty chain both skip the loop.
\<close>

definition filter_case ::
  "(SimpleCertificate \<Rightarrow> string) \<Rightarrow> string \<Rightarrow> TLSLog \<Rightarrow> TLSLog option option scan_outcome" where
  "filter_case key flt LogDataTLS =
     (if key (Certificate (ServerCertificates (HandshakeLog LogDataTLS))) = flt
        then Return SCAN_SUCCESS (Some (Some LogDataTLS)) None
      else if chain_loop key flt (Chain (ServerCertificates (HandshakeLog LogDataTLS)))
        then Return SCAN_SUCCESS (Some (Some LogDataTLS)) None
      else Return SCAN_SUCCESS_NOTCONTAIN None None)"

text \<open>
  \<^verbatim>\<open>TLSScanner.Scan\<close>, lines 80 to 170. The result is an \<^verbatim>\<open>interface{}\<close>: \<open>None\<close> is
  the nil interface, \<open>Some p\<close> holds the pointer \<open>p\<close> to a log, which \<^verbatim>\<open>GetLog\<close> may
  return as nil. Reading a field through a nil connection or a nil log panics.
\<close>

definition TLSScanner_Scan :: "TLSScanner \<Rightarrow> ScanTarget \<Rightarrow> TLSLog option option scan_outcome" where
  "TLSScanner_Scan s t =
     (case tls_config s of
        None \<Rightarrow> Panic
      | Some cfg \<Rightarrow>
          (case target_OpenTLS t of
             (conn, Some err) \<Rightarrow>
               (case conn of
                  None \<Rightarrow> Return (TryGetScanStatus err) None (Some err)
                | Some cn \<Rightarrow>
                    (case tls_GetLog cn of
                       None \<Rightarrow> Return (TryGetScanStatus err) None (Some err)
                     | Some log \<Rightarrow>
                         (if ServerHello (HandshakeLog log) \<noteq> None
                            then Return (TryGetScanStatus err) (Some (Some log)) (Some err)
                          else Return (TryGetScanStatus err) None (Some err))))
           | (conn, None) \<Rightarrow>
               (case conn of
                  None \<Rightarrow> Panic
                | Some cn \<Rightarrow>
                    (let LogDataTLS = tls_GetLog cn
                     in if length (FilterFingerprintMD5 cfg) > 0 then
                          (case LogDataTLS of
                             None \<Rightarrow> Panic
                           | Some log \<Rightarrow> filter_case cert_md5 (FilterFingerprintMD5 cfg) log)
                        else if length (FilterFingerprintSHA1 cfg) > 0 then
                          (case LogDataTLS of
                             None \<Rightarrow> Panic
                           | Some log \<Rightarrow> filter_case cert_sha1 (FilterFingerprintSHA1 cfg) log)
                        else if length (FilterFingerprintSHA256 cfg) > 0 then
                          (case LogDataTLS of
                             None \<Rightarrow> Panic
                           | Some log \<Rightarrow> filter_case cert_sha256 (FilterFingerprintSHA256 cfg) log)
                        else if length (FilterFingerprintSerial cfg) > 0 then
                          (case LogDataTLS of
                             None \<Rightarrow> Panic
                           | Some log \<Rightarrow> filter_case cert_serial (FilterFingerprintSerial cfg) log)
                        else Return SCAN_SUCCESS (Some LogDataTLS) None))))"

section \<open>Concrete peers and configurations\<close>

text \<open>
  A connection that accepts every write and answers every read with the same bytes and
  the same read error; a target whose \<^verbatim>\<open>Open\<close> always yields that connection; a target
  whose \<^verbatim>\<open>Open\<close> and \<^verbatim>\<open>OpenTLS\<close> always fail with the same error.
\<close>

definition fixed_conn :: "byte list \<Rightarrow> error option \<Rightarrow> net_conn" where
  "fixed_conn R readerr = \<lparr>conn_Write = (\<lambda>k b. None), conn_Read = (\<lambda>k. (R, readerr))\<rparr>"

definition fixed_target :: "net_conn \<Rightarrow> ScanTarget" where
  "fixed_target c =
     \<lparr>target_Open = (\<lambda>k. (Some c, None)), target_OpenTLS = (None, Some ErrConnectionRefused)\<rparr>"

definition failing_target :: "error \<Rightarrow> ScanTarget" where
  "failing_target e = \<lparr>target_Open = (\<lambda>k. (None, Some e)), target_OpenTLS = (None, Some e)\<rparr>"

text \<open>
  The flags as the command line leaves them when no option is given: every string empty,
  every switch off, \<^verbatim>\<open>max-tries\<close> at its declared default of 1.
\<close>

definition default_Flags :: Flags where
  "default_Flags =
     \<lparr>Probe = [], Pattern = [], MaxTries = 1, UseTLS = False, OnlyBASE64 = False,
      ProbeBASE64 = [], SingleContains = [], SingleContainsString = [],
      GetTLSConnection = (\<lambda>c. Inl ErrIO)\<rparr>"

definition scanner_of :: "Flags \<Rightarrow> Regexp \<Rightarrow> byte list \<Rightarrow> Scanner" where
  "scanner_of cfg re prb = \<lparr>config = Some cfg, regex = Some re, probe = prb\<rparr>"

definition match_all :: Regexp where
  "match_all = (\<lambda>b. True)"

definition match_prefix :: "string \<Rightarrow> Regexp" where
  "match_prefix s = (\<lambda>b. prefix (bytes_of_string s) b)"

definition no_stdlib :: stdlib where
  "no_stdlib = \<lparr>regexp_Compile = (\<lambda>s. None), strconv_Unquote = (\<lambda>s. None)\<rparr>"

text \<open>
  A certificate with the given digests and serial number, a log with the given
  \<^verbatim>\<open>ServerHello\<close>, leaf and chain, a TLS connection with the given log, and a target
  whose \<^verbatim>\<open>OpenTLS\<close> returns the given pair.
\<close>

definition cert_of :: "byte list \<Rightarrow> byte list \<Rightarrow> byte list \<Rightarrow> nat \<Rightarrow> SimpleCertificate" where
  "cert_of md5 sha1 sha256 serial =
     \<lparr>Parsed = \<lparr>FingerprintMD5 = md5, FingerprintSHA1 = sha1, FingerprintSHA256 = sha256,
                 SerialNumber = serial\<rparr>\<rparr>"

definition log_of :: "ServerHello option \<Rightarrow> SimpleCertificate \<Rightarrow> SimpleCertificate list \<Rightarrow> TLSLog" where
  "log_of hello leaf chain =
     \<lparr>HandshakeLog = \<lparr>ServerHello = hello,
                       ServerCertificates = \<lparr>Certificate = leaf, Chain = chain\<rparr>\<rparr>\<rparr>"

definition tls12_hello :: ServerHello where
  "tls12_hello = \<lparr>hello_version = 0x0303, hello_cipher_suite = 0xC02F\<rparr>"

definition tls_conn_of :: "TLSLog option \<Rightarrow> tls_conn" where
  "tls_conn_of log = \<lparr>tls_GetLog = log, tls_Handshake = None, tls_net = fixed_conn [] None\<rparr>"

definition tls_target :: "tls_conn option \<Rightarrow> error option \<Rightarrow> ScanTarget" where
  "tls_target conn err =
     \<lparr>target_Open = (\<lambda>k. (None, Some ErrConnectionRefused)), target_OpenTLS = (conn, err)\<rparr>"

definition no_filter :: TLSFlags where
  "no_filter =
     \<lparr>FilterFingerprintMD5 = [], FilterFingerprintSHA1 = [], FilterFingerprintSHA256 = [],
      FilterFingerprintSerial = []\<rparr>"

definition tls_scanner_of :: "TLSFlags \<Rightarrow> TLSScanner" where
  "tls_scanner_of cfg = \<lparr>tls_config = Some cfg\<rparr>"

text \<open>
  A connection whose writes all fail, a TLS flags method that wraps every connection into
  the given TLS connection, and a TLS connection whose handshake fails.
\<close>

definition write_failing_conn :: "error \<Rightarrow> net_conn" where
  "write_failing_conn e = \<lparr>conn_Write = (\<lambda>k b. Some e), conn_Read = (\<lambda>k. ([], None))\<rparr>"

definition tls_upgrade :: "tls_conn \<Rightarrow> net_conn \<Rightarrow> error + tls_conn" where
  "tls_upgrade tc = (\<lambda>c. Inr tc)"

definition handshake_failing :: "TLSLog option \<Rightarrow> error \<Rightarrow> tls_conn" where
  "handshake_failing log e = \<lparr>tls_GetLog = log, tls_Handshake = Some e, tls_net = fixed_conn [] None\<rparr>"


section \<open>Properties of the library functions and of the loops\<close>

lemma open_loop_not_entered:
  "MaxTries cfg \<le> try \<Longrightarrow> open_loop cfg target try c err tr = (c, err, tr)"
  by (simp add: open_loop.simps)

lemma probe_loop_not_entered:
  "MaxTries cfg \<le> try \<Longrightarrow> probe_loop cfg prb conn try err ret readerr tr = (err, ret, readerr, tr)"
  by (simp add: probe_loop.simps)

lemma open_loop_retry:
  "try < MaxTries cfg \<Longrightarrow> snd (target_Open target (nat (try + 1))) \<noteq> None \<Longrightarrow>
   open_loop cfg target try c err tr =
     open_loop cfg target (try + 1) (fst (target_Open target (nat (try + 1))))
       (snd (target_Open target (nat (try + 1)))) (tr @ [EvOpen])"
  by (subst open_loop.simps) simp

lemma open_loop_break:
  "try < MaxTries cfg \<Longrightarrow> snd (target_Open target (nat (try + 1))) = None \<Longrightarrow>
   open_loop cfg target try c err tr =
     (fst (target_Open target (nat (try + 1))), None, tr @ [EvOpen])"
  by (subst open_loop.simps) simp

lemma open_loop_all_fail:
  "\<forall>k. snd (target_Open target k) \<noteq> None \<Longrightarrow> try < MaxTries cfg \<Longrightarrow>
   open_loop cfg target try c err tr =
     (fst (target_Open target (nat (MaxTries cfg))),
      snd (target_Open target (nat (MaxTries cfg))),
      tr @ replicate (nat (MaxTries cfg - try)) EvOpen)"
proof (induction cfg target "try" c err tr rule: open_loop.induct)
  case (1 cfg target "try" c err tr)
  have lt: "try < MaxTries cfg" by (rule "1.prems"(2))
  have ne: "snd (target_Open target (nat (try + 1))) \<noteq> None"
    using "1.prems"(1) by blast
  note step = open_loop_retry [OF lt ne, of c err tr]
  show ?case
  proof (cases "try + 1 < MaxTries cfg")
    case True
    have "nat (MaxTries cfg - try) = Suc (nat (MaxTries cfg - (try + 1)))"
      using True by simp
    then have "tr @ replicate (nat (MaxTries cfg - try)) EvOpen =
          (tr @ [EvOpen]) @ replicate (nat (MaxTries cfg - (try + 1))) EvOpen"
      by simp
    with step "1.IH" [OF lt ne "1.prems"(1) True] show ?thesis by simp
  next
    case False
    with lt have last: "try + 1 = MaxTries cfg" by simp
    then have "MaxTries cfg - try = 1" by simp
    with step last show ?thesis by (simp add: open_loop_not_entered)
  qed
qed


lemma chain_loop_iff: "chain_loop key flt chain \<longleftrightarrow> (\<exists>v \<in> set chain. key v = flt)"
  by (induction chain) auto

lemma chain_loop_first_match:
  "\<forall>u \<in> set pre. key u \<noteq> flt \<Longrightarrow> key v = flt \<Longrightarrow> chain_loop key flt (pre @ v # post)"
  by (induction pre) auto

lemma filter_case_iff:
  "filter_case key flt log =
     (if key (Certificate (ServerCertificates (HandshakeLog log))) = flt
         \<or> (\<exists>v \<in> set (Chain (ServerCertificates (HandshakeLog log))). key v = flt)
      then Return SCAN_SUCCESS (Some (Some log)) None
      else Return SCAN_SUCCESS_NOTCONTAIN None None)"
  by (simp add: filter_case_def chain_loop_iff)

lemma TLSScanner_Scan_opened:
  "tls_config s = Some cfg \<Longrightarrow> target_OpenTLS t = (Some cn, None) \<Longrightarrow> tls_GetLog cn = Some log \<Longrightarrow>
   TLSScanner_Scan s t =
     (if FilterFingerprintMD5 cfg \<noteq> [] then filter_case cert_md5 (FilterFingerprintMD5 cfg) log
      else if FilterFingerprintSHA1 cfg \<noteq> [] then filter_case cert_sha1 (FilterFingerprintSHA1 cfg) log
      else if FilterFingerprintSHA256 cfg \<noteq> [] then filter_case cert_sha256 (FilterFingerprintSHA256 cfg) log
      else if FilterFingerprintSerial cfg \<noteq> [] then filter_case cert_serial (FilterFingerprintSerial cfg) log
      else Return SCAN_SUCCESS (Some (Some log)) None)"
  by (simp add: TLSScanner_Scan_def)

lemma cert_serial_small:
  "SerialNumber (Parsed v) < 2 ^ 64 \<Longrightarrow> cert_serial v = decimal (SerialNumber (Parsed v))"
  by (simp add: cert_serial_def strconv_FormatUint10_def bigInt_Uint64_def unat_of_nat)

lemma TLSScanner_Init_mismatched_flags:
  "TLSScanner_Init s (BannerFlags f) = InitReturn (Some ErrMismatchedFlags) s"
  "TLSScanner_Init s NilFlags = InitReturn (Some ErrMismatchedFlags) s"
  "TLSScanner_Init s (ModuleTLSFlags g) = InitReturn None (s\<lparr>tls_config := Some g\<rparr>)"
  by (simp_all add: TLSScanner_Init_def)

lemma open_loop_calls:
  "0 \<le> try \<Longrightarrow> try < MaxTries cfg \<Longrightarrow>
   \<exists>k. nat try < k \<and> int k \<le> MaxTries cfg \<and>
       open_loop cfg target try c err tr =
         (fst (target_Open target k), snd (target_Open target k),
          tr @ replicate (k - nat try) EvOpen)"
proof (induction cfg target "try" c err tr rule: open_loop.induct)
  case (1 cfg target "try" c err tr)
  have ge: "0 \<le> try" and lt: "try < MaxTries cfg" by (rule "1.prems")+
  let ?k = "nat (try + 1)"
  have k: "nat try < ?k" "int ?k \<le> MaxTries cfg" "?k - nat try = 1"
    using ge lt by simp_all
  show ?case
  proof (cases "snd (target_Open target ?k) = None")
    case True
    from open_loop_break [OF lt True, of c err tr] True k
    show ?thesis by (intro exI [of _ ?k]) simp
  next
    case False
    note step = open_loop_retry [OF lt False, of c err tr]
    show ?thesis
    proof (cases "try + 1 < MaxTries cfg")
      case True
      from "1.IH" [OF lt False _ True] ge
      obtain k where kk: "nat (try + 1) < k" "int k \<le> MaxTries cfg"
        and ol: "open_loop cfg target (try + 1) (fst (target_Open target ?k))
           (snd (target_Open target ?k)) (tr @ [EvOpen]) =
         (fst (target_Open target k), snd (target_Open target k),
          (tr @ [EvOpen]) @ replicate (k - nat (try + 1)) EvOpen)"
        by auto
      from kk ge have "k - nat try = Suc (k - nat (try + 1))" by simp
      then have "tr @ replicate (k - nat try) EvOpen =
          (tr @ [EvOpen]) @ replicate (k - nat (try + 1)) EvOpen" by simp
      with step ol kk ge show ?thesis by (intro exI [of _ k]) simp
    next
      case False
      then have "MaxTries cfg \<le> try + 1" by simp
      from step open_loop_not_entered [OF this] k
      show ?thesis by (intro exI [of _ ?k]) simp
    qed
  qed
qed

lemma bytes_Contains_iff: "bytes_Contains b s \<longleftrightarrow> (\<exists>ps ss. b = ps @ s @ ss)"
proof (induction b)
  case Nil
  then show ?case by auto
next
  case (Cons x xs)
  show ?case
  proof
    assume "bytes_Contains (x # xs) s"
    then consider "prefix s (x # xs)" | "bytes_Contains xs s" by auto
    then show "\<exists>ps ss. x # xs = ps @ s @ ss"
    proof cases
      case 1
      then obtain ss where "x # xs = s @ ss" by (auto simp: prefix_def)
      then have "x # xs = [] @ s @ ss" by simp
      then show ?thesis by blast
    next
      case 2
      with Cons.IH obtain ps ss where "xs = ps @ s @ ss" by blast
      then have "x # xs = (x # ps) @ s @ ss" by simp
      then show ?thesis by blast
    qed
  next
    assume "\<exists>ps ss. x # xs = ps @ s @ ss"
    then obtain ps ss where eq: "x # xs = ps @ s @ ss" by blast
    show "bytes_Contains (x # xs) s"
    proof (cases ps)
      case Nil
      with eq have "prefix s (x # xs)" by (simp add: prefix_def)
      then show ?thesis by simp
    next
      case (Cons p ps')
      with eq have "xs = ps' @ s @ ss" by simp
      with Cons.IH have "bytes_Contains xs s" by blast
      then show ?thesis by simp
    qed
  qed
qed

lemma Scan_after_read:
  "config scanner = Some cfg \<Longrightarrow> Scan_connect cfg target = Inr (conn, result, tr) \<Longrightarrow>
   Scan_exchange cfg (probe scanner) conn tr = Inr (R, tr') \<Longrightarrow>
   Scan scanner target = (Scan_classify cfg (regex scanner) result R, tr' @ [EvClose])"
  by (simp add: Scan_def)

lemma Scan_classify_pattern:
  "SingleContains cfg = [] \<Longrightarrow> SingleContainsString cfg = [] \<Longrightarrow>
   Scan_classify cfg (Some P) result R =
     (if P R then Return SCAN_SUCCESS (Some (fill_result cfg result R)) None
      else Return SCAN_PROTOCOL_ERROR (Some (fill_result cfg result R)) (Some NoMatchError))"
  by (simp add: Scan_classify_def)

lemma Scan_classify_filter:
  "SingleContains cfg \<noteq> [] \<or> SingleContainsString cfg \<noteq> [] \<Longrightarrow>
   Scan_classify cfg re result R =
     (if snd (filter_bytes cfg) = None \<and> fst (filter_bytes cfg) \<noteq> [] then
        (if bytes_Contains R (fst (filter_bytes cfg))
         then Return SCAN_SUCCESS (Some (fill_result cfg result R)) None
         else Return SCAN_SUCCESS_NOTCONTAIN None None)
      else Return SCAN_PROTOCOL_ERROR (Some (fill_result cfg result R)) (Some NoMatchError))"
  by (auto simp add: Scan_classify_def Let_def case_prod_beta)

lemma Init_config:
  "Init lib scanner0 flags = InitReturn e scanner \<Longrightarrow>
   \<exists>cfg. flags = BannerFlags cfg \<and> config scanner = Some cfg
     \<and> regex scanner = regexp_MustCompile lib (Pattern cfg) \<and> e = None"
  by (auto simp add: Init_def Let_def split: ScanFlags.splits option.splits if_splits prod.splits)

lemma Scan_connect_fixed:
  "0 < MaxTries cfg \<Longrightarrow> \<not> UseTLS cfg \<Longrightarrow>
   Scan_connect cfg (fixed_target c) = Inr (c, new_Results, [EvOpen])"
  by (simp add: Scan_connect_def open_loop_break fixed_target_def)

lemma Scan_exchange_fixed:
  "0 < MaxTries cfg \<Longrightarrow> readerr = None \<or> readerr = Some EOF \<Longrightarrow>
   Scan_exchange cfg prb (fixed_conn R readerr) tr =
     Inr (R, (if length prb > 0 then tr @ [EvWrite prb] else tr) @ [EvRead])"
  by (subst Scan_exchange_def, subst probe_loop.simps) (auto simp add: fixed_conn_def)

lemma TryGetScanStatus_failure:
  "TryGetScanStatus e \<noteq> SCAN_SUCCESS" "TryGetScanStatus e \<noteq> SCAN_SUCCESS_NOTCONTAIN"
  "SCAN_SUCCESS \<noteq> TryGetScanStatus e" "SCAN_SUCCESS_NOTCONTAIN \<noteq> TryGetScanStatus e"
  by (cases e; simp)+

lemma Scan_connect_early:
  "Scan_connect cfg target = Inl (Return st res err, tr) \<Longrightarrow>
   \<exists>e. err = Some e \<and> st = TryGetScanStatus e"
  by (auto simp add: Scan_connect_def Let_def
      split: prod.splits option.splits sum.splits if_splits) metis

lemma Scan_exchange_early:
  "Scan_exchange cfg prb conn tr = Inl (Return st res err, tr') \<Longrightarrow>
   \<exists>e. err = Some e \<and> st = TryGetScanStatus e"
  by (auto simp add: Scan_exchange_def split: prod.splits option.splits if_splits)

lemma Scan_exchange_no_panic: "Scan_exchange cfg prb conn tr \<noteq> Inl (Panic, tr')"
  by (auto simp add: Scan_exchange_def split: prod.splits option.splits if_splits)

lemma Scan_classify_cases:
  "Scan_classify cfg re result R = Return st res err \<Longrightarrow>
   (st = SCAN_SUCCESS \<and> err = None) \<or> (st = SCAN_SUCCESS_NOTCONTAIN \<and> res = None \<and> err = None)
   \<or> (st = SCAN_PROTOCOL_ERROR \<and> err = Some NoMatchError)"
  by (auto simp add: Scan_classify_def Let_def split: prod.splits option.splits if_splits)

lemma Scan_return_cases:
  assumes "fst (Scan scanner target) = Return st res err"
  shows "(\<exists>e. err = Some e \<and> st = TryGetScanStatus e)
   \<or> (st = SCAN_SUCCESS \<and> err = None) \<or> (st = SCAN_SUCCESS_NOTCONTAIN \<and> res = None \<and> err = None)
   \<or> (st = SCAN_PROTOCOL_ERROR \<and> err = Some NoMatchError)"
proof (cases "config scanner")
  case None
  with assms show ?thesis by (simp add: Scan_def)
next
  case (Some cfg)
  show ?thesis
  proof (cases "Scan_connect cfg target")
    case (Inl early)
    with Some assms have "Scan_connect cfg target = Inl (Return st res err, snd early)"
      by (cases early) (simp add: Scan_def)
    from Scan_connect_early [OF this] show ?thesis by blast
  next
    case (Inr ok)
    obtain conn result tr where ok: "ok = (conn, result, tr)" by (cases ok) auto
    show ?thesis
    proof (cases "Scan_exchange cfg (probe scanner) conn tr")
      case (Inl early)
      with Some Inr ok assms
      have "Scan_exchange cfg (probe scanner) conn tr = Inl (Return st res err, snd early)"
        by (cases early) (simp add: Scan_def)
      from Scan_exchange_early [OF this] show ?thesis by blast
    next
      case (Inr rd)
      with Some \<open>Scan_connect cfg target = Inr ok\<close> ok assms
      have "Scan_classify cfg (regex scanner) result (fst rd) = Return st res err"
        by (cases rd) (simp add: Scan_def)
      from Scan_classify_cases [OF this] show ?thesis by blast
    qed
  qed
qed

lemma TLSScanner_Scan_return_cases:
  assumes "TLSScanner_Scan s t = Return st res err"
  shows "(\<exists>e. err = Some e \<and> st = TryGetScanStatus e \<and> snd (target_OpenTLS t) = Some e)
   \<or> (st = SCAN_SUCCESS \<and> err = None) \<or> (st = SCAN_SUCCESS_NOTCONTAIN \<and> res = None \<and> err = None)"
  using assms
  by (auto simp add: TLSScanner_Scan_def filter_case_def Let_def
      split: prod.splits option.splits if_splits)

lemma open_loop_fixed:
  "0 < MaxTries cfg \<Longrightarrow> open_loop cfg (fixed_target c) 0 None None [] = (Some c, None, [EvOpen])"
  by (simp add: open_loop_break fixed_target_def)

lemma open_loop_failing_once:
  "MaxTries cfg = 1 \<Longrightarrow>
   open_loop cfg (failing_target e) 0 None None [] = (None, Some e, [EvOpen])"
  by (subst open_loop.simps, subst open_loop.simps) (simp add: failing_target_def)

lemma probe_loop_once:
  "MaxTries cfg = 1 \<Longrightarrow>
   probe_loop cfg prb conn 0 None [] None tr =
     ((if length prb > 0 then conn_Write conn 1 prb else None),
      fst (conn_Read conn 1), snd (conn_Read conn 1),
      (if length prb > 0 then tr @ [EvWrite prb] else tr) @ [EvRead])"
  by (subst probe_loop.simps, subst probe_loop.simps, subst probe_loop.simps)
     (simp add: Let_def)


section \<open>The banner scanner: the retry bound of the connection phase\<close>

text \<open>
  Claim C3. For every \<open>MaxTries = N\<close> with \<open>N \<ge> 1\<close> and every target whose \<^verbatim>\<open>Open\<close>
  always fails, \<^verbatim>\<open>Scan\<close> calls \<^verbatim>\<open>Open\<close> exactly \<open>N\<close> times and then returns the status
  derived from the error of the last call, a nil result and that error. The trace of the
  call consists of the \<open>N\<close> calls of \<^verbatim>\<open>Open\<close> and nothing else: no write and no read
  is attempted.
\<close>

theorem banner_open_retry_bound:
  assumes "config scanner = Some cfg"
    and "1 \<le> MaxTries cfg"
    and "\<forall>k. snd (target_Open target k) \<noteq> None"
  shows "\<exists>e. snd (target_Open target (nat (MaxTries cfg))) = Some e \<and>
             Scan scanner target =
               (Return (TryGetScanStatus e) None (Some e), replicate (nat (MaxTries cfg)) EvOpen)"
proof -
  from assms(3) obtain e where e: "snd (target_Open target (nat (MaxTries cfg))) = Some e"
    by blast
  have "(0::int) < MaxTries cfg" using assms(2) by simp
  from open_loop_all_fail [OF assms(3) this, of None None "[]"]
  have "open_loop cfg target 0 None None [] =
          (fst (target_Open target (nat (MaxTries cfg))), Some e,
           replicate (nat (MaxTries cfg)) EvOpen)"
    using e by simp
  then have "Scan_connect cfg target =
          Inl (Return (TryGetScanStatus e) None (Some e), replicate (nat (MaxTries cfg)) EvOpen)"
    by (simp add: Scan_connect_def)
  with assms(1) e show ?thesis by (simp add: Scan_def)
qed

theorem banner_open_retry_bound_witness:
  "snd (target_Open (failing_target ErrTimeout) 3) = Some ErrTimeout \<and>
   Scan (scanner_of (default_Flags\<lparr>MaxTries := 3\<rparr>) match_all []) (failing_target ErrTimeout) =
     (Return SCAN_CONNECTION_TIMEOUT None (Some ErrTimeout), [EvOpen, EvOpen, EvOpen])"
  using banner_open_retry_bound [of "scanner_of (default_Flags\<lparr>MaxTries := 3\<rparr>) match_all []"
      "default_Flags\<lparr>MaxTries := 3\<rparr>" "failing_target ErrTimeout"]
  by (simp add: scanner_of_def default_Flags_def failing_target_def numeral_3_eq_3)



section \<open>The TLS scanner: a failed handshake that got as far as the ServerHello\<close>

text \<open>
  Claim C2. When opening the TLS connection fails with an error: if the connection is
  there, its handshake log is there and the log holds a \<^verbatim>\<open>ServerHello\<close>, then \<^verbatim>\<open>Scan\<close>
  returns the status derived from the error together with that log and the error; if no
  \<^verbatim>\<open>ServerHello\<close> was captured (no connection, no log, or a log without one), it returns
  the status derived from the error with an absent result, and the error.
\<close>

theorem tls_partial_detection:
  "tls_config s = Some cfg \<and> target_OpenTLS t = (conn, Some err) \<longrightarrow>
     (\<forall>cn log h. conn = Some cn \<and> tls_GetLog cn = Some log \<and> ServerHello (HandshakeLog log) = Some h
        \<longrightarrow> TLSScanner_Scan s t = Return (TryGetScanStatus err) (Some (Some log)) (Some err))
   \<and> ((\<forall>cn log. conn = Some cn \<and> tls_GetLog cn = Some log \<longrightarrow> ServerHello (HandshakeLog log) = None)
        \<longrightarrow> TLSScanner_Scan s t = Return (TryGetScanStatus err) None (Some err))"
  by (auto simp add: TLSScanner_Scan_def split: option.splits)

theorem tls_partial_detection_witness:
  "TLSScanner_Scan (tls_scanner_of no_filter)
      (tls_target (Some (tls_conn_of (Some (log_of (Some tls12_hello) (cert_of [] [] [] 1) [])))) (Some ErrTimeout))
     = Return SCAN_CONNECTION_TIMEOUT (Some (Some (log_of (Some tls12_hello) (cert_of [] [] [] 1) []))) (Some ErrTimeout)
   \<and> TLSScanner_Scan (tls_scanner_of no_filter)
      (tls_target (Some (tls_conn_of (Some (log_of None (cert_of [] [] [] 1) [])))) (Some ErrTimeout))
     = Return SCAN_CONNECTION_TIMEOUT None (Some ErrTimeout)
   \<and> TLSScanner_Scan (tls_scanner_of no_filter) (tls_target None (Some ErrConnectionRefused))
     = Return SCAN_CONNECTION_REFUSED None (Some ErrConnectionRefused)"
  using tls_partial_detection [of "tls_scanner_of no_filter" no_filter
      "tls_target (Some (tls_conn_of (Some (log_of (Some tls12_hello) (cert_of [] [] [] 1) [])))) (Some ErrTimeout)"
      "Some (tls_conn_of (Some (log_of (Some tls12_hello) (cert_of [] [] [] 1) [])))" ErrTimeout]
    tls_partial_detection [of "tls_scanner_of no_filter" no_filter
      "tls_target (Some (tls_conn_of (Some (log_of None (cert_of [] [] [] 1) [])))) (Some ErrTimeout)"
      "Some (tls_conn_of (Some (log_of None (cert_of [] [] [] 1) [])))" ErrTimeout]
    tls_partial_detection [of "tls_scanner_of no_filter" no_filter
      "tls_target None (Some ErrConnectionRefused)" None ErrConnectionRefused]
  by (simp add: tls_scanner_of_def tls_target_def tls_conn_of_def log_of_def)


section \<open>The TLS scanner: the priority of the fingerprint filters\<close>

text \<open>
  Claim C8. After a successful TLS scan the filters are looked at in the fixed order MD5,
  SHA1, SHA256, serial number, and only the first non-empty one is evaluated. With an MD5
  filter and a SHA1 filter both configured, a certificate that matches the SHA1 value but
  not the MD5 value (neither does any chain certificate) yields \<^verbatim>\<open>SCAN_SUCCESS_NOTCONTAIN\<close>;
  with an MD5 filter configured, the three later filters have no influence on the outcome.
\<close>

theorem tls_filter_priority:
  "tls_config s = Some cfg \<and> target_OpenTLS t = (Some cn, None) \<and> tls_GetLog cn = Some log \<longrightarrow>
     TLSScanner_Scan s t =
       (if FilterFingerprintMD5 cfg \<noteq> [] then filter_case cert_md5 (FilterFingerprintMD5 cfg) log
        else if FilterFingerprintSHA1 cfg \<noteq> [] then filter_case cert_sha1 (FilterFingerprintSHA1 cfg) log
        else if FilterFingerprintSHA256 cfg \<noteq> [] then filter_case cert_sha256 (FilterFingerprintSHA256 cfg) log
        else if FilterFingerprintSerial cfg \<noteq> [] then filter_case cert_serial (FilterFingerprintSerial cfg) log
        else Return SCAN_SUCCESS (Some (Some log)) None)
     \<and> (FilterFingerprintMD5 cfg \<noteq> [] \<and> FilterFingerprintSHA1 cfg \<noteq> []
          \<and> cert_sha1 (Certificate (ServerCertificates (HandshakeLog log))) = FilterFingerprintSHA1 cfg
          \<and> cert_md5 (Certificate (ServerCertificates (HandshakeLog log))) \<noteq> FilterFingerprintMD5 cfg
          \<and> (\<forall>v \<in> set (Chain (ServerCertificates (HandshakeLog log))). cert_md5 v \<noteq> FilterFingerprintMD5 cfg)
        \<longrightarrow> TLSScanner_Scan s t = Return SCAN_SUCCESS_NOTCONTAIN None None)
     \<and> (FilterFingerprintMD5 cfg \<noteq> []
        \<longrightarrow> TLSScanner_Scan
              (s\<lparr>tls_config := Some (cfg\<lparr>FilterFingerprintSHA1 := f1, FilterFingerprintSHA256 := f2,
                                          FilterFingerprintSerial := f3\<rparr>)\<rparr>) t
            = TLSScanner_Scan s t)"
  by (simp add: TLSScanner_Scan_opened filter_case_iff)

theorem tls_filter_priority_witness:
  "TLSScanner_Scan
     (tls_scanner_of (no_filter\<lparr>FilterFingerprintMD5 := ''00ff'', FilterFingerprintSHA1 := ''0a0b''\<rparr>))
     (tls_target (Some (tls_conn_of (Some (log_of (Some tls12_hello)
        (cert_of [0x12, 0x34] [0x0a, 0x0b] [] 1) [cert_of [0x56] [0x0a, 0x0b] [] 2])))) None)
   = Return SCAN_SUCCESS_NOTCONTAIN None None"
  using tls_filter_priority [of
      "tls_scanner_of (no_filter\<lparr>FilterFingerprintMD5 := ''00ff'', FilterFingerprintSHA1 := ''0a0b''\<rparr>)"
      "no_filter\<lparr>FilterFingerprintMD5 := ''00ff'', FilterFingerprintSHA1 := ''0a0b''\<rparr>"
      "tls_target (Some (tls_conn_of (Some (log_of (Some tls12_hello)
        (cert_of [0x12, 0x34] [0x0a, 0x0b] [] 1) [cert_of [0x56] [0x0a, 0x0b] [] 2])))) None"
      "tls_conn_of (Some (log_of (Some tls12_hello)
        (cert_of [0x12, 0x34] [0x0a, 0x0b] [] 1) [cert_of [0x56] [0x0a, 0x0b] [] 2]))"
      "log_of (Some tls12_hello)
        (cert_of [0x12, 0x34] [0x0a, 0x0b] [] 1) [cert_of [0x56] [0x0a, 0x0b] [] 2]" "[]" "[]" "[]"]
  by (simp add: tls_scanner_of_def no_filter_def tls_target_def tls_conn_of_def log_of_def
      cert_of_def cert_md5_def cert_sha1_def hex_EncodeToString_def hextable_def filter_case_def)


section \<open>The TLS scanner: leaf first, then the chain\<close>

text \<open>
  Claim C9. After a successful TLS scan with a fingerprint filter configured, \<^verbatim>\<open>Scan\<close>
  returns \<^verbatim>\<open>SCAN_SUCCESS\<close> with the full log when the leaf certificate matches or, failing
  that, some certificate of the chain matches; the chain is walked in order and the walk
  ends at the first match, whatever follows it. When neither the leaf nor any chain
  certificate matches, \<^verbatim>\<open>Scan\<close> returns \<^verbatim>\<open>SCAN_SUCCESS_NOTCONTAIN\<close> with no result and
  no error. This holds for each of the four filters, with the key that filter compares.
\<close>

theorem tls_chain_fallback:
  "tls_config s = Some cfg \<and> target_OpenTLS t = (Some cn, None) \<and> tls_GetLog cn = Some log
     \<and> leaf = Certificate (ServerCertificates (HandshakeLog log))
     \<and> chain = Chain (ServerCertificates (HandshakeLog log)) \<longrightarrow>
   (FilterFingerprintMD5 cfg \<noteq> [] \<longrightarrow>
      TLSScanner_Scan s t =
        (if cert_md5 leaf = FilterFingerprintMD5 cfg \<or> (\<exists>v \<in> set chain. cert_md5 v = FilterFingerprintMD5 cfg)
         then Return SCAN_SUCCESS (Some (Some log)) None
         else Return SCAN_SUCCESS_NOTCONTAIN None None))
   \<and> (FilterFingerprintMD5 cfg = [] \<and> FilterFingerprintSHA1 cfg \<noteq> [] \<longrightarrow>
      TLSScanner_Scan s t =
        (if cert_sha1 leaf = FilterFingerprintSHA1 cfg \<or> (\<exists>v \<in> set chain. cert_sha1 v = FilterFingerprintSHA1 cfg)
         then Return SCAN_SUCCESS (Some (Some log)) None
         else Return SCAN_SUCCESS_NOTCONTAIN None None))
   \<and> (FilterFingerprintMD5 cfg = [] \<and> FilterFingerprintSHA1 cfg = [] \<and> FilterFingerprintSHA256 cfg \<noteq> [] \<longrightarrow>
      TLSScanner_Scan s t =
        (if cert_sha256 leaf = FilterFingerprintSHA256 cfg
            \<or> (\<exists>v \<in> set chain. cert_sha256 v = FilterFingerprintSHA256 cfg)
         then Return SCAN_SUCCESS (Some (Some log)) None
         else Return SCAN_SUCCESS_NOTCONTAIN None None))
   \<and> (FilterFingerprintMD5 cfg = [] \<and> FilterFingerprintSHA1 cfg = [] \<and> FilterFingerprintSHA256 cfg = []
        \<and> FilterFingerprintSerial cfg \<noteq> [] \<longrightarrow>
      TLSScanner_Scan s t =
        (if cert_serial leaf = FilterFingerprintSerial cfg
            \<or> (\<exists>v \<in> set chain. cert_serial v = FilterFingerprintSerial cfg)
         then Return SCAN_SUCCESS (Some (Some log)) None
         else Return SCAN_SUCCESS_NOTCONTAIN None None))
   \<and> (\<forall>key flt pre v post. chain = pre @ v # post \<and> (\<forall>u \<in> set pre. key u \<noteq> flt) \<and> key v = flt
        \<longrightarrow> chain_loop key flt chain = chain_loop key flt (pre @ [v]) \<and> chain_loop key flt chain)"
  by (simp add: TLSScanner_Scan_opened filter_case_iff chain_loop_first_match)

theorem tls_chain_fallback_witness:
  "TLSScanner_Scan (tls_scanner_of (no_filter\<lparr>FilterFingerprintSHA256 := ''beef''\<rparr>))
     (tls_target (Some (tls_conn_of (Some (log_of (Some tls12_hello)
        (cert_of [] [] [0x01] 1) [cert_of [] [] [0x02] 2, cert_of [] [] [0xbe, 0xef] 3])))) None)
   = Return SCAN_SUCCESS (Some (Some (log_of (Some tls12_hello)
        (cert_of [] [] [0x01] 1) [cert_of [] [] [0x02] 2, cert_of [] [] [0xbe, 0xef] 3]))) None
   \<and> TLSScanner_Scan (tls_scanner_of (no_filter\<lparr>FilterFingerprintSHA256 := ''beef''\<rparr>))
     (tls_target (Some (tls_conn_of (Some (log_of (Some tls12_hello)
        (cert_of [] [] [0x01] 1) [cert_of [] [] [0x02] 2])))) None)
   = Return SCAN_SUCCESS_NOTCONTAIN None None"
  using tls_chain_fallback [of
      "tls_scanner_of (no_filter\<lparr>FilterFingerprintSHA256 := ''beef''\<rparr>)"
      "no_filter\<lparr>FilterFingerprintSHA256 := ''beef''\<rparr>"
      "tls_target (Some (tls_conn_of (Some (log_of (Some tls12_hello)
        (cert_of [] [] [0x01] 1) [cert_of [] [] [0x02] 2, cert_of [] [] [0xbe, 0xef] 3])))) None"
      "tls_conn_of (Some (log_of (Some tls12_hello)
        (cert_of [] [] [0x01] 1) [cert_of [] [] [0x02] 2, cert_of [] [] [0xbe, 0xef] 3]))"
      "log_of (Some tls12_hello)
        (cert_of [] [] [0x01] 1) [cert_of [] [] [0x02] 2, cert_of [] [] [0xbe, 0xef] 3]"
      "cert_of [] [] [0x01] 1" "[cert_of [] [] [0x02] 2, cert_of [] [] [0xbe, 0xef] 3]"]
    tls_chain_fallback [of
      "tls_scanner_of (no_filter\<lparr>FilterFingerprintSHA256 := ''beef''\<rparr>)"
      "no_filter\<lparr>FilterFingerprintSHA256 := ''beef''\<rparr>"
      "tls_target (Some (tls_conn_of (Some (log_of (Some tls12_hello)
        (cert_of [] [] [0x01] 1) [cert_of [] [] [0x02] 2])))) None"
      "tls_conn_of (Some (log_of (Some tls12_hello)
        (cert_of [] [] [0x01] 1) [cert_of [] [] [0x02] 2]))"
      "log_of (Some tls12_hello) (cert_of [] [] [0x01] 1) [cert_of [] [] [0x02] 2]"
      "cert_of [] [] [0x01] 1" "[cert_of [] [] [0x02] 2]"]
  by (simp add: tls_scanner_of_def no_filter_def tls_target_def tls_conn_of_def log_of_def
      cert_of_def cert_sha256_def hex_EncodeToString_def hextable_def)


section \<open>The TLS scanner: the serial-number filter\<close>

text \<open>
  Claim C4. A certificate should match the serial-number filter exactly when the decimal
  representation of its serial number, an unsigned integer of arbitrary size, equals the
  filter. The scanner converts the serial number with \<^verbatim>\<open>Uint64\<close> first, which keeps
  the low 64 bits only. For the serial number \<open>2\<^sup>6\<^sup>4 + 5\<close>, whose decimal representation
  is 18446744073709551621, the key compared is \<open>5\<close>: the filter 18446744073709551621
  is answered with \<^verbatim>\<open>SCAN_SUCCESS_NOTCONTAIN\<close>, and the filter 5 with \<^verbatim>\<open>SCAN_SUCCESS\<close>.
\<close>

theorem tls_serial_filter_truncates:
  "decimal 18446744073709551621 = ''18446744073709551621''
   \<and> cert_serial (cert_of [] [] [] 18446744073709551621) = ''5''
   \<and> TLSScanner_Scan (tls_scanner_of (no_filter\<lparr>FilterFingerprintSerial := ''18446744073709551621''\<rparr>))
       (tls_target (Some (tls_conn_of (Some (log_of (Some tls12_hello)
          (cert_of [] [] [] 18446744073709551621) [])))) None)
     = Return SCAN_SUCCESS_NOTCONTAIN None None
   \<and> TLSScanner_Scan (tls_scanner_of (no_filter\<lparr>FilterFingerprintSerial := ''5''\<rparr>))
       (tls_target (Some (tls_conn_of (Some (log_of (Some tls12_hello)
          (cert_of [] [] [] 18446744073709551621) [])))) None)
     = Return SCAN_SUCCESS (Some (Some (log_of (Some tls12_hello)
          (cert_of [] [] [] 18446744073709551621) []))) None"
proof -
  have d: "decimal 18446744073709551621 = ''18446744073709551621''"
    by (simp add: digits_def)
  have s: "cert_serial (cert_of [] [] [] 18446744073709551621) = ''5''"
    by (simp add: cert_serial_def cert_of_def strconv_FormatUint10_def bigInt_Uint64_def digits_def)
  show ?thesis
    using d s
    by (simp add: TLSScanner_Scan_def tls_scanner_of_def no_filter_def tls_target_def
        tls_conn_of_def log_of_def filter_case_def)
qed


section \<open>Init and a configuration of another module\<close>

text \<open>
  Claim C5. \<^verbatim>\<open>Init\<close> should return the mismatched-configuration error when it is handed
  a configuration that is not its own module's. The TLS scanner does (lemma
  \<open>TLSScanner_Init_mismatched_flags\<close>). The banner scanner discards the outcome of the
  type assertion and dereferences the nil configuration: handed the flags of the TLS
  module, or a nil interface, its \<^verbatim>\<open>Init\<close> panics and returns nothing.
\<close>

theorem banner_Init_mismatched_flags_panics:
  "Init lib scanner (ModuleTLSFlags f) = InitPanic \<and> Init lib scanner NilFlags = InitPanic"
  by (simp add: Init_def)


section \<open>The banner scanner: acceptance by the pattern\<close>

text \<open>
  Claim C7. With no substring filter configured (\<^verbatim>\<open>single-contain\<close> and
  \<^verbatim>\<open>single-contain-string\<close> both empty), when the connection phase and the read phase
  succeed with the bytes \<open>R\<close>, \<^verbatim>\<open>Scan\<close> returns \<^verbatim>\<open>SCAN_SUCCESS\<close> with the result
  exactly when the compiled pattern matches \<open>R\<close>, and otherwise \<^verbatim>\<open>SCAN_PROTOCOL_ERROR\<close>
  with the error "pattern did not match". A scanner initialised with the empty pattern
  accepts every \<open>R\<close>.
\<close>

theorem banner_pattern_acceptance:
  "(config scanner = Some cfg \<and> regex scanner = Some P
      \<and> SingleContains cfg = [] \<and> SingleContainsString cfg = []
      \<and> Scan_connect cfg target = Inr (conn, result, tr)
      \<and> Scan_exchange cfg (probe scanner) conn tr = Inr (R, tr')
    \<longrightarrow> fst (Scan scanner target) =
          (if P R then Return SCAN_SUCCESS (Some (fill_result cfg result R)) None
           else Return SCAN_PROTOCOL_ERROR (Some (fill_result cfg result R)) (Some NoMatchError)))
   \<and> (Init lib scanner0 (BannerFlags cfg) = InitReturn e scanner \<and> Pattern cfg = []
      \<and> SingleContains cfg = [] \<and> SingleContainsString cfg = []
      \<and> Scan_connect cfg target = Inr (conn, result, tr)
      \<and> Scan_exchange cfg (probe scanner) conn tr = Inr (R, tr')
    \<longrightarrow> fst (Scan scanner target) = Return SCAN_SUCCESS (Some (fill_result cfg result R)) None)"
proof (intro conjI impI)
  assume h: "config scanner = Some cfg \<and> regex scanner = Some P
      \<and> SingleContains cfg = [] \<and> SingleContainsString cfg = []
      \<and> Scan_connect cfg target = Inr (conn, result, tr)
      \<and> Scan_exchange cfg (probe scanner) conn tr = Inr (R, tr')"
  then have "Scan scanner target = (Scan_classify cfg (Some P) result R, tr' @ [EvClose])"
    using Scan_after_read [of scanner cfg target conn result tr R tr'] by simp
  with h show "fst (Scan scanner target) =
          (if P R then Return SCAN_SUCCESS (Some (fill_result cfg result R)) None
           else Return SCAN_PROTOCOL_ERROR (Some (fill_result cfg result R)) (Some NoMatchError))"
    by (simp add: Scan_classify_pattern)
next
  assume h: "Init lib scanner0 (BannerFlags cfg) = InitReturn e scanner \<and> Pattern cfg = []
      \<and> SingleContains cfg = [] \<and> SingleContainsString cfg = []
      \<and> Scan_connect cfg target = Inr (conn, result, tr)
      \<and> Scan_exchange cfg (probe scanner) conn tr = Inr (R, tr')"
  with Init_config [of lib scanner0 "BannerFlags cfg" e scanner]
  have c: "config scanner = Some cfg" and r: "regex scanner = Some (\<lambda>b. True)"
    by (auto simp add: regexp_MustCompile_def)
  from h c have "Scan scanner target = (Scan_classify cfg (regex scanner) result R, tr' @ [EvClose])"
    using Scan_after_read [of scanner cfg target conn result tr R tr'] by simp
  with h r show "fst (Scan scanner target) = Return SCAN_SUCCESS (Some (fill_result cfg result R)) None"
    by (simp add: Scan_classify_pattern)
qed


theorem banner_pattern_acceptance_witness:
  "fst (Scan (scanner_of default_Flags (match_prefix ''SSH-'') (bytes_of_string [CHR 0x0A]))
         (fixed_target (fixed_conn (bytes_of_string ''SSH-2.0-OpenSSH_8.2'') None)))
     = Return SCAN_SUCCESS
         (Some (fill_result default_Flags new_Results (bytes_of_string ''SSH-2.0-OpenSSH_8.2''))) None
   \<and> fst (Scan (scanner_of default_Flags (match_prefix ''SSH-'') (bytes_of_string [CHR 0x0A]))
         (fixed_target (fixed_conn (bytes_of_string ''HTTP/1.1 400'') (Some EOF))))
     = Return SCAN_PROTOCOL_ERROR
         (Some (fill_result default_Flags new_Results (bytes_of_string ''HTTP/1.1 400'')))
         (Some NoMatchError)
   \<and> Init no_stdlib NewScanner (BannerFlags default_Flags)
     = InitReturn None (scanner_of default_Flags match_all [])
   \<and> fst (Scan (scanner_of default_Flags match_all [])
         (fixed_target (fixed_conn (bytes_of_string ''HTTP/1.1 400'') (Some EOF))))
     = Return SCAN_SUCCESS
         (Some (fill_result default_Flags new_Results (bytes_of_string ''HTTP/1.1 400''))) None"
proof -
  let ?sc = "scanner_of default_Flags (match_prefix ''SSH-'') (bytes_of_string [CHR 0x0A])"
  let ?c1 = "fixed_conn (bytes_of_string ''SSH-2.0-OpenSSH_8.2'') None"
  let ?c2 = "fixed_conn (bytes_of_string ''HTTP/1.1 400'') (Some EOF)"
  have mt: "0 < MaxTries default_Flags" and nt: "\<not> UseTLS default_Flags"
    and nf: "SingleContains default_Flags = []" "SingleContainsString default_Flags = []"
      "Pattern default_Flags = []"
    by (simp_all add: default_Flags_def)
  have i: "Init no_stdlib NewScanner (BannerFlags default_Flags)
     = InitReturn None (scanner_of default_Flags match_all [])"
    by (simp add: Init_def NewScanner_def default_Flags_def scanner_of_def match_all_def
        regexp_MustCompile_def)
  have m1: "match_prefix ''SSH-'' (bytes_of_string ''SSH-2.0-OpenSSH_8.2'')"
    by (simp add: match_prefix_def bytes_of_string_def)
  have m2: "\<not> match_prefix ''SSH-'' (bytes_of_string ''HTTP/1.1 400'')"
    by (simp add: match_prefix_def bytes_of_string_def)
  from banner_pattern_acceptance [where scanner = ?sc and cfg = default_Flags
      and P = "match_prefix ''SSH-''" and target = "fixed_target ?c1" and conn = ?c1
      and result = new_Results and tr = "[EvOpen]"
      and R = "bytes_of_string ''SSH-2.0-OpenSSH_8.2''"]
  have a: "fst (Scan ?sc (fixed_target ?c1))
     = Return SCAN_SUCCESS
         (Some (fill_result default_Flags new_Results (bytes_of_string ''SSH-2.0-OpenSSH_8.2''))) None"
    using mt nt nf m1 by (simp add: scanner_of_def Scan_connect_fixed Scan_exchange_fixed)
  from banner_pattern_acceptance [where scanner = ?sc and cfg = default_Flags
      and P = "match_prefix ''SSH-''" and target = "fixed_target ?c2" and conn = ?c2
      and result = new_Results and tr = "[EvOpen]" and R = "bytes_of_string ''HTTP/1.1 400''"]
  have b: "fst (Scan ?sc (fixed_target ?c2))
     = Return SCAN_PROTOCOL_ERROR
         (Some (fill_result default_Flags new_Results (bytes_of_string ''HTTP/1.1 400'')))
         (Some NoMatchError)"
    using mt nt nf m2 by (simp add: scanner_of_def Scan_connect_fixed Scan_exchange_fixed)
  from banner_pattern_acceptance [where scanner = "scanner_of default_Flags match_all []"
      and cfg = default_Flags and target = "fixed_target ?c2" and conn = ?c2
      and result = new_Results and tr = "[EvOpen]" and R = "bytes_of_string ''HTTP/1.1 400''"
      and lib = no_stdlib and ?scanner0.0 = NewScanner and e = None and P = match_all
      and tr' = "[EvOpen, EvRead]"]
  have c: "fst (Scan (scanner_of default_Flags match_all []) (fixed_target ?c2))
     = Return SCAN_SUCCESS
         (Some (fill_result default_Flags new_Results (bytes_of_string ''HTTP/1.1 400''))) None"
    using mt nt nf i by (simp add: scanner_of_def Scan_connect_fixed Scan_exchange_fixed match_all_def)
  from a b i c show ?thesis by simp
qed


section \<open>The banner scanner: acceptance by the substring filter\<close>

text \<open>
  Claim C1, as stated: whenever a non-empty substring filter is configured and the
  connection and read phases succeed with the bytes \<open>R\<close>, \<^verbatim>\<open>Scan\<close> returns
  \<^verbatim>\<open>SCAN_SUCCESS\<close> or \<^verbatim>\<open>SCAN_SUCCESS_NOTCONTAIN\<close>, never \<^verbatim>\<open>SCAN_PROTOCOL_ERROR\<close>. This
  fails for a base64 filter that does not decode: \<^verbatim>\<open>single-contain\<close> set to the text
  \<^verbatim>\<open>220 \<close> itself (the blank is not in the base64 alphabet) and a response that begins
  with these very bytes gives \<^verbatim>\<open>SCAN_PROTOCOL_ERROR\<close> with "pattern did not match".
\<close>

theorem banner_substring_never_protocol_error_counterexample:
  "fst (Scan (scanner_of (default_Flags\<lparr>SingleContains := ''220 ''\<rparr>) match_all [])
         (fixed_target (fixed_conn (bytes_of_string ''220 ready'') None)))
     = Return SCAN_PROTOCOL_ERROR
         (Some (fill_result (default_Flags\<lparr>SingleContains := ''220 ''\<rparr>) new_Results
                  (bytes_of_string ''220 ready'')))
         (Some NoMatchError)"
proof -
  let ?cfg = "default_Flags\<lparr>SingleContains := ''220 ''\<rparr>"
  have mt: "0 < MaxTries ?cfg" and nt: "\<not> UseTLS ?cfg"
    by (simp_all add: default_Flags_def)
  have d: "base64_DecodeString ''220 '' = (bytes_of_string [], Some CorruptInputError)"
    by (simp add: base64_DecodeString_def b64_index_def is_newline_def bytes_of_string_def)
  have "Scan (scanner_of ?cfg match_all []) (fixed_target (fixed_conn (bytes_of_string ''220 ready'') None))
      = (Scan_classify ?cfg (Some match_all) new_Results (bytes_of_string ''220 ready''),
          [EvOpen, EvRead, EvClose])"
    using mt nt by (simp add: Scan_def scanner_of_def Scan_connect_fixed Scan_exchange_fixed)
  moreover have "Scan_classify ?cfg (Some match_all) new_Results (bytes_of_string ''220 ready'')
      = Return SCAN_PROTOCOL_ERROR (Some (fill_result ?cfg new_Results (bytes_of_string ''220 ready'')))
          (Some NoMatchError)"
    using d by (simp add: Scan_classify_def filter_bytes_def default_Flags_def Let_def)
  ultimately show ?thesis by simp
qed

text \<open>
  Claim C1, amended. Let \<open>S\<close> and \<open>derr\<close> be the filter bytes and the decoding error of
  lines 206 to 211: the base64 decoding of \<^verbatim>\<open>single-contain\<close> when that is non-empty,
  otherwise the bytes of \<^verbatim>\<open>single-contain-string\<close> and no error. When the connection and
  read phases succeed with the bytes \<open>R\<close>: if there is no decoding error and \<open>S\<close> is
  non-empty, \<^verbatim>\<open>Scan\<close> returns \<^verbatim>\<open>SCAN_SUCCESS\<close> with the result if \<open>R\<close> contains \<open>S\<close>
  and otherwise \<^verbatim>\<open>SCAN_SUCCESS_NOTCONTAIN\<close> with no result and no error; if the base64
  filter does not decode, or decodes to no bytes, \<^verbatim>\<open>Scan\<close> returns
  \<^verbatim>\<open>SCAN_PROTOCOL_ERROR\<close> with the result and "pattern did not match". With the literal
  filter alone the first case always applies.
\<close>

theorem banner_substring_acceptance:
  "config scanner = Some cfg \<and> (SingleContains cfg \<noteq> [] \<or> SingleContainsString cfg \<noteq> [])
     \<and> Scan_connect cfg target = Inr (conn, result, tr)
     \<and> Scan_exchange cfg (probe scanner) conn tr = Inr (R, tr')
     \<and> filter_bytes cfg = (S, derr) \<longrightarrow>
   (derr = None \<and> S \<noteq> [] \<longrightarrow>
      fst (Scan scanner target) =
        (if (\<exists>ps ss. R = ps @ S @ ss)
         then Return SCAN_SUCCESS (Some (fill_result cfg result R)) None
         else Return SCAN_SUCCESS_NOTCONTAIN None None))
   \<and> (derr \<noteq> None \<or> S = [] \<longrightarrow>
      fst (Scan scanner target) =
        Return SCAN_PROTOCOL_ERROR (Some (fill_result cfg result R)) (Some NoMatchError))
   \<and> (SingleContains cfg = [] \<longrightarrow>
        S = bytes_of_string (SingleContainsString cfg) \<and> derr = None \<and> S \<noteq> [])
   \<and> (SingleContains cfg \<noteq> [] \<longrightarrow> (S, derr) = base64_DecodeString (SingleContains cfg))"
proof (intro impI)
  assume h: "config scanner = Some cfg \<and> (SingleContains cfg \<noteq> [] \<or> SingleContainsString cfg \<noteq> [])
     \<and> Scan_connect cfg target = Inr (conn, result, tr)
     \<and> Scan_exchange cfg (probe scanner) conn tr = Inr (R, tr')
     \<and> filter_bytes cfg = (S, derr)"
  then have s: "fst (Scan scanner target) = Scan_classify cfg (regex scanner) result R"
    using Scan_after_read [of scanner cfg target conn result tr R tr'] by simp
  from h have f: "SingleContains cfg \<noteq> [] \<or> SingleContainsString cfg \<noteq> []" by simp
  from h have fb: "fst (filter_bytes cfg) = S" "snd (filter_bytes cfg) = derr" by simp_all
  have 1: "derr = None \<and> S \<noteq> [] \<longrightarrow>
      fst (Scan scanner target) =
        (if (\<exists>ps ss. R = ps @ S @ ss)
         then Return SCAN_SUCCESS (Some (fill_result cfg result R)) None
         else Return SCAN_SUCCESS_NOTCONTAIN None None)"
    using s fb by (simp add: Scan_classify_filter [OF f] bytes_Contains_iff)
  have 2: "derr \<noteq> None \<or> S = [] \<longrightarrow>
      fst (Scan scanner target) =
        Return SCAN_PROTOCOL_ERROR (Some (fill_result cfg result R)) (Some NoMatchError)"
    using s fb by (auto simp add: Scan_classify_filter [OF f])
  have 3: "SingleContains cfg = [] \<longrightarrow>
        S = bytes_of_string (SingleContainsString cfg) \<and> derr = None \<and> S \<noteq> []"
    using h by (auto simp add: filter_bytes_def bytes_of_string_def)
  have 4: "SingleContains cfg \<noteq> [] \<longrightarrow> (S, derr) = base64_DecodeString (SingleContains cfg)"
    using h by (auto simp add: filter_bytes_def)
  from 1 2 3 4 show "(derr = None \<and> S \<noteq> [] \<longrightarrow>
      fst (Scan scanner target) =
        (if (\<exists>ps ss. R = ps @ S @ ss)
         then Return SCAN_SUCCESS (Some (fill_result cfg result R)) None
         else Return SCAN_SUCCESS_NOTCONTAIN None None))
   \<and> (derr \<noteq> None \<or> S = [] \<longrightarrow>
      fst (Scan scanner target) =
        Return SCAN_PROTOCOL_ERROR (Some (fill_result cfg result R)) (Some NoMatchError))
   \<and> (SingleContains cfg = [] \<longrightarrow>
        S = bytes_of_string (SingleContainsString cfg) \<and> derr = None \<and> S \<noteq> [])
   \<and> (SingleContains cfg \<noteq> [] \<longrightarrow> (S, derr) = base64_DecodeString (SingleContains cfg))"
    by blast
qed

theorem banner_substring_acceptance_witness:
  "fst (Scan (scanner_of (default_Flags\<lparr>SingleContainsString := ''220 ''\<rparr>) match_all [])
         (fixed_target (fixed_conn (bytes_of_string ''421 too many connections'') None)))
     = Return SCAN_SUCCESS_NOTCONTAIN None None
   \<and> fst (Scan (scanner_of (default_Flags\<lparr>SingleContains := ''MjIwIA==''\<rparr>) match_all [])
         (fixed_target (fixed_conn (bytes_of_string ''220 ready'') None)))
     = Return SCAN_SUCCESS
         (Some (fill_result (default_Flags\<lparr>SingleContains := ''MjIwIA==''\<rparr>) new_Results
                  (bytes_of_string ''220 ready''))) None
   \<and> fst (Scan (scanner_of (default_Flags\<lparr>SingleContains := [CHR 0x0A]\<rparr>) match_all [])
         (fixed_target (fixed_conn (bytes_of_string ''220 ready'') None)))
     = Return SCAN_PROTOCOL_ERROR
         (Some (fill_result (default_Flags\<lparr>SingleContains := [CHR 0x0A]\<rparr>) new_Results
                  (bytes_of_string ''220 ready''))) (Some NoMatchError)"
proof -
  let ?f1 = "default_Flags\<lparr>SingleContainsString := ''220 ''\<rparr>"
  let ?f2 = "default_Flags\<lparr>SingleContains := ''MjIwIA==''\<rparr>"
  let ?f3 = "default_Flags\<lparr>SingleContains := [CHR 0x0A]\<rparr>"
  let ?r1 = "bytes_of_string ''421 too many connections''"
  let ?r2 = "bytes_of_string ''220 ready''"
  have fb1: "filter_bytes ?f1 = (bytes_of_string ''220 '', None)"
    by (simp add: filter_bytes_def default_Flags_def)
  have fb2: "filter_bytes ?f2 = (bytes_of_string ''220 '', None)"
    by (simp add: filter_bytes_def default_Flags_def base64_DecodeString_def b64_index_def
        is_newline_def b64_finish_def bytes_of_string_def)
  have fb3: "filter_bytes ?f3 = ([], None)"
    by (simp add: filter_bytes_def default_Flags_def base64_DecodeString_def b64_index_def
        is_newline_def)
  have "\<not> bytes_Contains ?r1 (bytes_of_string ''220 '')"
    by (simp add: bytes_of_string_def)
  then have n1: "\<not> (\<exists>ps ss. ?r1 = ps @ bytes_of_string ''220 '' @ ss)"
    using bytes_Contains_iff by blast
  have "bytes_Contains ?r2 (bytes_of_string ''220 '')"
    by (simp add: bytes_of_string_def)
  then have y2: "\<exists>ps ss. ?r2 = ps @ bytes_of_string ''220 '' @ ss"
    using bytes_Contains_iff by blast
  have ne: "bytes_of_string ''220 '' \<noteq> []" by (simp add: bytes_of_string_def)
  have a: "fst (Scan (scanner_of ?f1 match_all []) (fixed_target (fixed_conn ?r1 None)))
     = Return SCAN_SUCCESS_NOTCONTAIN None None"
    using banner_substring_acceptance [where scanner = "scanner_of ?f1 match_all []"
        and cfg = ?f1 and target = "fixed_target (fixed_conn ?r1 None)"
        and conn = "fixed_conn ?r1 None" and result = new_Results and tr = "[EvOpen]"
        and R = ?r1 and tr' = "[EvOpen, EvRead]" and S = "bytes_of_string ''220 ''"
        and derr = None] fb1 n1 ne
    by (simp add: scanner_of_def Scan_connect_fixed Scan_exchange_fixed default_Flags_def)
  have b: "fst (Scan (scanner_of ?f2 match_all []) (fixed_target (fixed_conn ?r2 None)))
     = Return SCAN_SUCCESS (Some (fill_result ?f2 new_Results ?r2)) None"
    using banner_substring_acceptance [where scanner = "scanner_of ?f2 match_all []"
        and cfg = ?f2 and target = "fixed_target (fixed_conn ?r2 None)"
        and conn = "fixed_conn ?r2 None" and result = new_Results and tr = "[EvOpen]"
        and R = ?r2 and tr' = "[EvOpen, EvRead]" and S = "bytes_of_string ''220 ''"
        and derr = None] fb2 y2 ne
    by (simp add: scanner_of_def Scan_connect_fixed Scan_exchange_fixed default_Flags_def)
  have c: "fst (Scan (scanner_of ?f3 match_all []) (fixed_target (fixed_conn ?r2 None)))
     = Return SCAN_PROTOCOL_ERROR (Some (fill_result ?f3 new_Results ?r2)) (Some NoMatchError)"
    using banner_substring_acceptance [where scanner = "scanner_of ?f3 match_all []"
        and cfg = ?f3 and target = "fixed_target (fixed_conn ?r2 None)"
        and conn = "fixed_conn ?r2 None" and result = new_Results and tr = "[EvOpen]"
        and R = ?r2 and tr' = "[EvOpen, EvRead]" and S = "[]"
        and derr = None] fb3
    by (simp add: scanner_of_def Scan_connect_fixed Scan_exchange_fixed default_Flags_def)
  from a b c show ?thesis by simp
qed


section \<open>The banner scanner: a retry count below one\<close>

text \<open>
  Claim C10, as stated: for \<open>MaxTries \<le> 0\<close> \<^verbatim>\<open>Scan\<close> defers \<^verbatim>\<open>Close\<close> on a nil
  connection and then writes to and reads from it. The second half fails: with
  \<open>MaxTries = 0\<close> and a non-empty probe the call panics at the deferred \<^verbatim>\<open>Close\<close>
  with an empty trace, and the probe loop, which has the same bound, makes no write and
  no read either.
\<close>

theorem banner_max_tries_zero_counterexample:
  "Scan (scanner_of (default_Flags\<lparr>MaxTries := 0\<rparr>) match_all (bytes_of_string ''x''))
        (fixed_target (fixed_conn [] None)) = (Panic, [])
   \<and> probe_loop (default_Flags\<lparr>MaxTries := 0\<rparr>) (bytes_of_string ''x'') (fixed_conn [] None)
        0 None [] None [] = (None, [], None, [])"
  by (simp add: Scan_def Scan_connect_def scanner_of_def default_Flags_def
      open_loop_not_entered probe_loop_not_entered)

text \<open>
  Claim C10, amended. For \<open>MaxTries \<le> 0\<close> the body of the connection loop never runs,
  the connection and the open error stay nil, and \<^verbatim>\<open>Scan\<close> goes on to
  \<^verbatim>\<open>defer c.Close()\<close> on the nil connection, where it panics instead of returning an
  error status; \<^verbatim>\<open>Open\<close> is never called, and the probe loop, bounded by the same
  \<open>MaxTries\<close>, performs no write and no read. For \<open>MaxTries \<ge> 1\<close>, the documented
  default being 1, \<^verbatim>\<open>Open\<close> is called at least once, and with an \<^verbatim>\<open>Open\<close> that returns
  a connection whenever it returns no error this panic is not reached.
\<close>

theorem banner_max_tries_guard:
  "(config scanner = Some cfg \<and> MaxTries cfg \<le> 0 \<longrightarrow>
      open_loop cfg target 0 None None [] = (None, None, [])
      \<and> Scan scanner target = (Panic, [])
      \<and> probe_loop cfg prb conn 0 None [] None tr = (None, [], None, tr))
   \<and> (config scanner = Some cfg \<and> 1 \<le> MaxTries cfg
        \<and> (\<forall>k. fst (target_Open target k) = None \<longrightarrow> snd (target_Open target k) \<noteq> None) \<longrightarrow>
      (\<exists>c err tr0. open_loop cfg target 0 None None [] = (c, err, EvOpen # tr0)
                    \<and> (c = None \<longrightarrow> err \<noteq> None))
      \<and> (\<forall>tr1. Scan_connect cfg target \<noteq> Inl (Panic, tr1)))"
proof -
  have low: "open_loop cfg target 0 None None [] = (None, None, [])
      \<and> Scan scanner target = (Panic, [])
      \<and> probe_loop cfg prb conn 0 None [] None tr = (None, [], None, tr)"
    if h: "config scanner = Some cfg \<and> MaxTries cfg \<le> 0"
  proof -
    from h have ol: "open_loop cfg target 0 None None [] = (None, None, [])"
      by (simp add: open_loop_not_entered)
    then have "Scan_connect cfg target = Inl (Panic, [])"
      by (simp add: Scan_connect_def)
    with h ol show ?thesis
      by (simp add: Scan_def probe_loop_not_entered)
  qed
  have high: "(\<exists>c err tr0. open_loop cfg target 0 None None [] = (c, err, EvOpen # tr0)
                    \<and> (c = None \<longrightarrow> err \<noteq> None))
      \<and> (\<forall>tr1. Scan_connect cfg target \<noteq> Inl (Panic, tr1))"
    if h: "config scanner = Some cfg \<and> 1 \<le> MaxTries cfg
        \<and> (\<forall>k. fst (target_Open target k) = None \<longrightarrow> snd (target_Open target k) \<noteq> None)"
  proof -
    from h have "(0::int) \<le> 0" "0 < MaxTries cfg" by simp_all
    from open_loop_calls [OF this, of target None None "[]"]
    obtain k where k: "0 < k"
      and ol: "open_loop cfg target 0 None None [] =
           (fst (target_Open target k), snd (target_Open target k), replicate k EvOpen)"
      by auto
    from k obtain j where j: "k = Suc j" by (cases k) auto
    from h have wb: "fst (target_Open target k) = None \<longrightarrow> snd (target_Open target k) \<noteq> None"
      by blast
    from ol j wb have "\<exists>c err tr0. open_loop cfg target 0 None None [] = (c, err, EvOpen # tr0)
                    \<and> (c = None \<longrightarrow> err \<noteq> None)"
      by simp
    moreover have "\<forall>tr1. Scan_connect cfg target \<noteq> Inl (Panic, tr1)"
      using ol wb
      by (auto simp add: Scan_connect_def Let_def split: option.splits sum.splits)
    ultimately show ?thesis by blast
  qed
  from low high show ?thesis by blast
qed

theorem banner_max_tries_guard_witness:
  "Scan (scanner_of (default_Flags\<lparr>MaxTries := - 1\<rparr>) match_all []) (fixed_target (fixed_conn [] None))
     = (Panic, [])
   \<and> Scan_connect default_Flags (fixed_target (fixed_conn [] None)) \<noteq> Inl (Panic, [EvOpen])"
  using banner_max_tries_guard [where scanner = "scanner_of (default_Flags\<lparr>MaxTries := - 1\<rparr>) match_all []"
      and cfg = "default_Flags\<lparr>MaxTries := - 1\<rparr>" and target = "fixed_target (fixed_conn [] None)"]
    banner_max_tries_guard [where scanner = "scanner_of default_Flags match_all []"
      and cfg = default_Flags and target = "fixed_target (fixed_conn [] None)"]
  by (simp add: scanner_of_def default_Flags_def fixed_target_def)


section \<open>Both scanners: what becomes of an error\<close>

text \<open>
  Claim C6, as stated: whenever an error arises on an internal path of \<^verbatim>\<open>Scan\<close>,
  the decoding of a configured base64 substring filter included, that error, or a
  status and error derived from it, is returned. This fails for the decoding error.
  With \<^verbatim>\<open>single-contain\<close> set to \<^verbatim>\<open>MjIwIA\<close> (the padding is missing) the decoder
  reports a \<^verbatim>\<open>CorruptInputError\<close>, and \<^verbatim>\<open>Scan\<close> returns \<^verbatim>\<open>SCAN_PROTOCOL_ERROR\<close> with
  the fixed error "pattern did not match": the very status, result and error that it
  returns when no error arises at all, as with the filter of a lone newline, which
  decodes to no bytes. The decoding error itself is not in the return, and nothing in
  the return depends on it.
\<close>

theorem base64_filter_error_replaced_counterexample:
  "snd (base64_DecodeString ''MjIwIA'') = Some CorruptInputError
   \<and> fst (Scan (scanner_of (default_Flags\<lparr>SingleContains := ''MjIwIA''\<rparr>) match_all [])
         (fixed_target (fixed_conn (bytes_of_string ''220 ready'') None)))
     = Return SCAN_PROTOCOL_ERROR
         (Some (fill_result default_Flags new_Results (bytes_of_string ''220 ready'')))
         (Some NoMatchError)
   \<and> base64_DecodeString [CHR 0x0A] = ([], None)
   \<and> fst (Scan (scanner_of (default_Flags\<lparr>SingleContains := [CHR 0x0A]\<rparr>) match_all [])
         (fixed_target (fixed_conn (bytes_of_string ''220 ready'') None)))
     = Return SCAN_PROTOCOL_ERROR
         (Some (fill_result default_Flags new_Results (bytes_of_string ''220 ready'')))
         (Some NoMatchError)"
proof -
  have d1: "base64_DecodeString ''MjIwIA'' = ([0x32, 0x32, 0x30], Some CorruptInputError)"
    by (simp add: base64_DecodeString_def b64_index_def is_newline_def)
  have d2: "base64_DecodeString [CHR 0x0A] = ([], None)"
    by (simp add: base64_DecodeString_def b64_index_def is_newline_def)
  have f: "fill_result (default_Flags\<lparr>SingleContains := x\<rparr>) new_Results r
      = fill_result default_Flags new_Results r" for x r
    by (simp add: fill_result_def)
  have c: "Scan_connect (default_Flags\<lparr>SingleContains := x\<rparr>) (fixed_target cn)
      = Inr (cn, new_Results, [EvOpen])" for x cn
    by (simp add: Scan_connect_def open_loop_fixed default_Flags_def)
  have e: "Scan_exchange (default_Flags\<lparr>SingleContains := x\<rparr>) [] (fixed_conn r None) [EvOpen]
      = Inr (r, [EvOpen, EvRead])" for x r
    by (simp add: Scan_exchange_def probe_loop_once default_Flags_def fixed_conn_def)
  show ?thesis
    using d1 d2
    by (simp add: Scan_def scanner_of_def c e f Scan_classify_def filter_bytes_def Let_def)
qed

text \<open>
  Claim C6, amended. For every call of \<^verbatim>\<open>Scan\<close> that returns, of either scanner: it
  returns one status, an optional result and an optional error; a non-absent error is
  paired with a status other than \<^verbatim>\<open>SCAN_SUCCESS\<close> and \<^verbatim>\<open>SCAN_SUCCESS_NOTCONTAIN\<close>,
  namely with the status derived from that error or, for "pattern did not match", with
  \<^verbatim>\<open>SCAN_PROTOCOL_ERROR\<close>; \<^verbatim>\<open>SCAN_SUCCESS_NOTCONTAIN\<close> carries no result and no error.
  The error that ends a phase is returned itself, with the status derived from it: the
  error of \<^verbatim>\<open>OpenTLS\<close> in the TLS scanner; in the banner scanner the error the
  connection loop ends with, the error of \<^verbatim>\<open>GetTLSConnection\<close>, the error of the
  handshake (with the partial result), the write error the probe loop ends with, and the
  read error other than \<^verbatim>\<open>io.EOF\<close> it ends with. An error of decoding the base64
  filter is not returned: \<^verbatim>\<open>Scan\<close> then returns \<^verbatim>\<open>SCAN_PROTOCOL_ERROR\<close> with the result
  and "pattern did not match". Calls that panic return nothing and are not covered.
\<close>

theorem scan_error_propagation:
  "(fst (Scan scanner target) = Return st res err \<longrightarrow>
      (err \<noteq> None \<longrightarrow> st \<noteq> SCAN_SUCCESS \<and> st \<noteq> SCAN_SUCCESS_NOTCONTAIN)
      \<and> (st = SCAN_SUCCESS_NOTCONTAIN \<longrightarrow> res = None \<and> err = None)
      \<and> (\<forall>e. err = Some e \<longrightarrow>
            st = TryGetScanStatus e \<or> (st = SCAN_PROTOCOL_ERROR \<and> e = NoMatchError)))
   \<and> (TLSScanner_Scan s t = Return st' res' err' \<longrightarrow>
      (err' \<noteq> None \<longrightarrow> st' \<noteq> SCAN_SUCCESS \<and> st' \<noteq> SCAN_SUCCESS_NOTCONTAIN)
      \<and> (st' = SCAN_SUCCESS_NOTCONTAIN \<longrightarrow> res' = None \<and> err' = None)
      \<and> (\<forall>e. err' = Some e \<longrightarrow> st' = TryGetScanStatus e \<and> snd (target_OpenTLS t) = Some e))
   \<and> (tls_config s = Some tcfg \<and> snd (target_OpenTLS t) = Some e1 \<longrightarrow>
      (\<exists>r. TLSScanner_Scan s t = Return (TryGetScanStatus e1) r (Some e1)))
   \<and> (config scanner = Some cfg \<and> open_loop cfg target 0 None None [] = (c, Some e2, tr0) \<longrightarrow>
      fst (Scan scanner target) = Return (TryGetScanStatus e2) None (Some e2))
   \<and> (config scanner = Some cfg \<and> open_loop cfg target 0 None None [] = (Some c0, None, tr0)
        \<and> UseTLS cfg \<and> GetTLSConnection cfg c0 = Inl e3 \<longrightarrow>
      fst (Scan scanner target) = Return (TryGetScanStatus e3) None (Some e3))
   \<and> (config scanner = Some cfg \<and> open_loop cfg target 0 None None [] = (Some c0, None, tr0)
        \<and> UseTLS cfg \<and> GetTLSConnection cfg c0 = Inr tc \<and> tls_Handshake tc = Some e4 \<longrightarrow>
      fst (Scan scanner target) =
        Return (TryGetScanStatus e4) (Some (new_Results\<lparr>TLSLog := tls_GetLog tc\<rparr>)) (Some e4))
   \<and> (config scanner = Some cfg \<and> Scan_connect cfg target = Inr (conn, result, tr)
        \<and> probe_loop cfg (probe scanner) conn 0 None [] None tr = (Some e5, ret, readerr, tr1) \<longrightarrow>
      fst (Scan scanner target) = Return (TryGetScanStatus e5) None (Some e5))
   \<and> (config scanner = Some cfg \<and> Scan_connect cfg target = Inr (conn, result, tr)
        \<and> probe_loop cfg (probe scanner) conn 0 None [] None tr = (None, ret, Some e6, tr1)
        \<and> e6 \<noteq> EOF \<longrightarrow>
      fst (Scan scanner target) = Return (TryGetScanStatus e6) None (Some e6))
   \<and> (config scanner = Some cfg \<and> Scan_connect cfg target = Inr (conn, result, tr)
        \<and> Scan_exchange cfg (probe scanner) conn tr = Inr (R, tr')
        \<and> SingleContains cfg \<noteq> [] \<and> snd (base64_DecodeString (SingleContains cfg)) = Some e7 \<longrightarrow>
      fst (Scan scanner target) =
        Return SCAN_PROTOCOL_ERROR (Some (fill_result cfg result R)) (Some NoMatchError))"
proof -
  have p1: "fst (Scan scanner target) = Return st res err \<longrightarrow>
      (err \<noteq> None \<longrightarrow> st \<noteq> SCAN_SUCCESS \<and> st \<noteq> SCAN_SUCCESS_NOTCONTAIN)
      \<and> (st = SCAN_SUCCESS_NOTCONTAIN \<longrightarrow> res = None \<and> err = None)
      \<and> (\<forall>e. err = Some e \<longrightarrow>
            st = TryGetScanStatus e \<or> (st = SCAN_PROTOCOL_ERROR \<and> e = NoMatchError))"
    using Scan_return_cases [of scanner target st res err] TryGetScanStatus_failure
    by auto
  have p2: "TLSScanner_Scan s t = Return st' res' err' \<longrightarrow>
      (err' \<noteq> None \<longrightarrow> st' \<noteq> SCAN_SUCCESS \<and> st' \<noteq> SCAN_SUCCESS_NOTCONTAIN)
      \<and> (st' = SCAN_SUCCESS_NOTCONTAIN \<longrightarrow> res' = None \<and> err' = None)
      \<and> (\<forall>e. err' = Some e \<longrightarrow> st' = TryGetScanStatus e \<and> snd (target_OpenTLS t) = Some e)"
    using TLSScanner_Scan_return_cases [of s t st' res' err'] TryGetScanStatus_failure
    by auto
  have p3: "tls_config s = Some tcfg \<and> snd (target_OpenTLS t) = Some e1 \<longrightarrow>
      (\<exists>r. TLSScanner_Scan s t = Return (TryGetScanStatus e1) r (Some e1))"
    by (cases "target_OpenTLS t") (auto simp add: TLSScanner_Scan_def split: option.splits)
  have p4: "config scanner = Some cfg \<and> open_loop cfg target 0 None None [] = (c, Some e2, tr0) \<longrightarrow>
      fst (Scan scanner target) = Return (TryGetScanStatus e2) None (Some e2)"
    by (simp add: Scan_def Scan_connect_def)
  have p5: "config scanner = Some cfg \<and> open_loop cfg target 0 None None [] = (Some c0, None, tr0)
        \<and> UseTLS cfg \<and> GetTLSConnection cfg c0 = Inl e3 \<longrightarrow>
      fst (Scan scanner target) = Return (TryGetScanStatus e3) None (Some e3)"
    by (simp add: Scan_def Scan_connect_def)
  have p6: "config scanner = Some cfg \<and> open_loop cfg target 0 None None [] = (Some c0, None, tr0)
        \<and> UseTLS cfg \<and> GetTLSConnection cfg c0 = Inr tc \<and> tls_Handshake tc = Some e4 \<longrightarrow>
      fst (Scan scanner target) =
        Return (TryGetScanStatus e4) (Some (new_Results\<lparr>TLSLog := tls_GetLog tc\<rparr>)) (Some e4)"
    by (simp add: Scan_def Scan_connect_def)
  have p7: "config scanner = Some cfg \<and> Scan_connect cfg target = Inr (conn, result, tr)
        \<and> probe_loop cfg (probe scanner) conn 0 None [] None tr = (Some e5, ret, readerr, tr1) \<longrightarrow>
      fst (Scan scanner target) = Return (TryGetScanStatus e5) None (Some e5)"
    by (simp add: Scan_def Scan_exchange_def)
  have p8: "config scanner = Some cfg \<and> Scan_connect cfg target = Inr (conn, result, tr)
        \<and> probe_loop cfg (probe scanner) conn 0 None [] None tr = (None, ret, Some e6, tr1)
        \<and> e6 \<noteq> EOF \<longrightarrow>
      fst (Scan scanner target) = Return (TryGetScanStatus e6) None (Some e6)"
    by (simp add: Scan_def Scan_exchange_def)
  have p9: "config scanner = Some cfg \<and> Scan_connect cfg target = Inr (conn, result, tr)
        \<and> Scan_exchange cfg (probe scanner) conn tr = Inr (R, tr')
        \<and> SingleContains cfg \<noteq> [] \<and> snd (base64_DecodeString (SingleContains cfg)) = Some e7 \<longrightarrow>
      fst (Scan scanner target) =
        Return SCAN_PROTOCOL_ERROR (Some (fill_result cfg result R)) (Some NoMatchError)"
    by (simp add: Scan_def Scan_classify_def filter_bytes_def Let_def case_prod_beta)
  show ?thesis
    by (intro conjI) (rule p1 p2 p3 p4 p5 p6 p7 p8 p9)+
qed

theorem scan_error_propagation_witness:
  "fst (Scan (scanner_of default_Flags match_all []) (failing_target ErrTimeout))
     = Return SCAN_CONNECTION_TIMEOUT None (Some ErrTimeout)
   \<and> fst (Scan (scanner_of (default_Flags\<lparr>UseTLS := True\<rparr>) match_all [])
         (fixed_target (fixed_conn [] None)))
     = Return SCAN_IO_ERROR None (Some ErrIO)
   \<and> fst (Scan (scanner_of (default_Flags\<lparr>UseTLS := True,
                GetTLSConnection := tls_upgrade (handshake_failing None ErrTimeout)\<rparr>) match_all [])
         (fixed_target (fixed_conn [] None)))
     = Return SCAN_CONNECTION_TIMEOUT (Some (new_Results\<lparr>TLSLog := None\<rparr>)) (Some ErrTimeout)
   \<and> fst (Scan (scanner_of default_Flags match_all (bytes_of_string ''x''))
         (fixed_target (write_failing_conn ErrConnectionRefused)))
     = Return SCAN_CONNECTION_REFUSED None (Some ErrConnectionRefused)
   \<and> fst (Scan (scanner_of default_Flags match_all []) (fixed_target (fixed_conn [] (Some ErrTimeout))))
     = Return SCAN_CONNECTION_TIMEOUT None (Some ErrTimeout)
   \<and> fst (Scan (scanner_of (default_Flags\<lparr>SingleContains := ''MjIwIA=''\<rparr>) match_all [])
         (fixed_target (fixed_conn [] None)))
     = Return SCAN_PROTOCOL_ERROR
         (Some (fill_result (default_Flags\<lparr>SingleContains := ''MjIwIA=''\<rparr>) new_Results []))
         (Some NoMatchError)
   \<and> TLSScanner_Scan (tls_scanner_of no_filter) (tls_target None (Some ErrConnectionRefused))
     = Return SCAN_CONNECTION_REFUSED None (Some ErrConnectionRefused)
   \<and> SCAN_CONNECTION_REFUSED = TryGetScanStatus ErrConnectionRefused"
proof -
  let ?sc = "scanner_of default_Flags match_all []"
  let ?cfg5 = "default_Flags\<lparr>UseTLS := True\<rparr>"
  let ?cfg6 = "default_Flags\<lparr>UseTLS := True,
                GetTLSConnection := tls_upgrade (handshake_failing None ErrTimeout)\<rparr>"
  let ?cfg9 = "default_Flags\<lparr>SingleContains := ''MjIwIA=''\<rparr>"
  let ?c = "fixed_conn [] None"
  have mt: "MaxTries default_Flags = 1" "MaxTries ?cfg5 = 1" "MaxTries ?cfg6 = 1" "MaxTries ?cfg9 = 1"
    by (simp_all add: default_Flags_def)
  have e4: "fst (Scan ?sc (failing_target ErrTimeout))
     = Return SCAN_CONNECTION_TIMEOUT None (Some ErrTimeout)"
    using scan_error_propagation [where scanner = ?sc and cfg = default_Flags
        and target = "failing_target ErrTimeout" and c = None and ?e2.0 = ErrTimeout
        and ?tr0.0 = "[EvOpen]"] mt
    by (simp add: scanner_of_def open_loop_failing_once)
  have e5: "fst (Scan (scanner_of ?cfg5 match_all []) (fixed_target ?c))
     = Return SCAN_IO_ERROR None (Some ErrIO)"
    using scan_error_propagation [where scanner = "scanner_of ?cfg5 match_all []" and cfg = ?cfg5
        and target = "fixed_target ?c" and ?c0.0 = ?c and ?e3.0 = ErrIO and ?tr0.0 = "[EvOpen]"] mt
    by (simp add: scanner_of_def open_loop_fixed) (simp add: default_Flags_def)
  have e6: "fst (Scan (scanner_of ?cfg6 match_all []) (fixed_target ?c))
     = Return SCAN_CONNECTION_TIMEOUT (Some (new_Results\<lparr>TLSLog := None\<rparr>)) (Some ErrTimeout)"
    using scan_error_propagation [where scanner = "scanner_of ?cfg6 match_all []" and cfg = ?cfg6
        and target = "fixed_target ?c" and ?c0.0 = ?c and ?e4.0 = ErrTimeout and ?tr0.0 = "[EvOpen]"
        and tc = "handshake_failing None ErrTimeout"] mt
    by (simp add: scanner_of_def open_loop_fixed)
       (simp add: default_Flags_def tls_upgrade_def handshake_failing_def)
  have e7: "fst (Scan (scanner_of default_Flags match_all (bytes_of_string ''x''))
         (fixed_target (write_failing_conn ErrConnectionRefused)))
     = Return SCAN_CONNECTION_REFUSED None (Some ErrConnectionRefused)"
    using scan_error_propagation [where scanner = "scanner_of default_Flags match_all (bytes_of_string ''x'')"
        and cfg = default_Flags and target = "fixed_target (write_failing_conn ErrConnectionRefused)"
        and conn = "write_failing_conn ErrConnectionRefused" and result = new_Results
        and tr = "[EvOpen]" and ?e5.0 = ErrConnectionRefused and ret = "[]" and readerr = None
        and ?tr1.0 = "[EvOpen, EvWrite (bytes_of_string ''x''), EvRead]"] mt
    by (simp add: scanner_of_def Scan_connect_def open_loop_fixed probe_loop_once
        write_failing_conn_def bytes_of_string_def)
       (simp add: default_Flags_def)
  have e8: "fst (Scan ?sc (fixed_target (fixed_conn [] (Some ErrTimeout))))
     = Return SCAN_CONNECTION_TIMEOUT None (Some ErrTimeout)"
    using scan_error_propagation [where scanner = ?sc and cfg = default_Flags
        and target = "fixed_target (fixed_conn [] (Some ErrTimeout))"
        and conn = "fixed_conn [] (Some ErrTimeout)" and result = new_Results
        and tr = "[EvOpen]" and ?e6.0 = ErrTimeout and ret = "[]"
        and ?tr1.0 = "[EvOpen, EvRead]"] mt
    by (simp add: scanner_of_def Scan_connect_def open_loop_fixed probe_loop_once fixed_conn_def)
       (simp add: default_Flags_def)
  have d: "base64_DecodeString ''MjIwIA='' = ([0x32, 0x32, 0x30], Some CorruptInputError)"
    by (simp add: base64_DecodeString_def b64_index_def is_newline_def)
  have e9: "fst (Scan (scanner_of ?cfg9 match_all []) (fixed_target ?c))
     = Return SCAN_PROTOCOL_ERROR (Some (fill_result ?cfg9 new_Results [])) (Some NoMatchError)"
    using scan_error_propagation [where scanner = "scanner_of ?cfg9 match_all []" and cfg = ?cfg9
        and target = "fixed_target ?c" and conn = ?c and result = new_Results
        and tr = "[EvOpen]" and R = "[]" and tr' = "[EvOpen, EvRead]"
        and ?e7.0 = CorruptInputError] mt d
    by (simp add: scanner_of_def Scan_connect_def Scan_exchange_def open_loop_fixed
        probe_loop_once fixed_conn_def)
       (simp add: default_Flags_def)
  have e3: "TLSScanner_Scan (tls_scanner_of no_filter) (tls_target None (Some ErrConnectionRefused))
     = Return SCAN_CONNECTION_REFUSED None (Some ErrConnectionRefused)"
    by (simp add: TLSScanner_Scan_def tls_scanner_of_def tls_target_def)
  have e2: "SCAN_CONNECTION_REFUSED = TryGetScanStatus ErrConnectionRefused"
    using scan_error_propagation [where s = "tls_scanner_of no_filter"
        and t = "tls_target None (Some ErrConnectionRefused)" and st' = SCAN_CONNECTION_REFUSED
        and res' = None and err' = "Some ErrConnectionRefused"] e3
    by simp
  from e4 e5 e6 e7 e8 e9 e3 e2 show ?thesis by simp
qed

end
